theory Spec2Isabelle
  imports Complex_Main "HOL-Library.Word"
begin

section \<open>JavaScript strings and values\<close>

text \<open>
  A JavaScript string is a sequence of UTF-16 code units. The literals of the program are
  written with \<open>js\<close> where they are ASCII; the few characters outside ASCII (the em dash
  and the coloured circles of the severity tiers) are given by their code units.
\<close>

type_synonym jsstring = "16 word list"

definition js :: "string \<Rightarrow> jsstring" where
  "js s = map of_char s"

definition emDash :: jsstring where
  "emDash = [0x2014]"

definition redCircle :: jsstring where
  "redCircle = [0xD83D, 0xDD34]"

definition orangeCircle :: jsstring where
  "orangeCircle = [0xD83D, 0xDFE0]"

definition yellowCircle :: jsstring where
  "yellowCircle = [0xD83D, 0xDFE1]"

definition whiteCircle :: jsstring where
  "whiteCircle = [0x26AA]"

text \<open>
  \<open>String.prototype.trim\<close> removes the code units of the ECMAScript productions WhiteSpace
  and LineTerminator from both ends.
\<close>

definition isWhiteSpace :: "16 word \<Rightarrow> bool" where
  "isWhiteSpace c \<longleftrightarrow>
     c \<in> {0x9, 0xA, 0xB, 0xC, 0xD, 0x20, 0xA0, 0x1680, 0x2028, 0x2029, 0x202F, 0x205F,
          0x3000, 0xFEFF}
     \<or> (0x2000 \<le> c \<and> c \<le> 0x200A)"

definition trim :: "jsstring \<Rightarrow> jsstring" where
  "trim s = rev (dropWhile isWhiteSpace (rev (dropWhile isWhiteSpace s)))"

text \<open>
  A JavaScript number is a double: NaN, one of the two infinities, or a finite value, which
  is a rational. The two zeros are not told apart (\<open>Math.max(0, -0)\<close> is \<open>+0\<close>, so the
  program never returns \<open>-0\<close>).
\<close>

datatype number = NaN | PosInfinity | NegInfinity | Finite rat

text \<open>
  The values the program can meet: what \<open>JSON.parse\<close> returns (null, booleans, numbers,
  strings, arrays, objects), \<open>undefined\<close> (what reading a missing property gives) and NaN.
  An object is the list of its own properties; a name is looked up from the front.
\<close>

datatype jsval =
    JUndefined
  | JNull
  | JBool bool
  | JNum number
  | JStr jsstring
  | JArr "jsval list"
  | JObj "(jsstring \<times> jsval) list"

datatype jstype = TUndefined | TObject | TBoolean | TNumber | TString

fun typeof :: "jsval \<Rightarrow> jstype" where
  "typeof JUndefined = TUndefined"
| "typeof JNull = TObject"
| "typeof (JBool b) = TBoolean"
| "typeof (JNum n) = TNumber"
| "typeof (JStr s) = TString"
| "typeof (JArr xs) = TObject"
| "typeof (JObj kvs) = TObject"

fun isArray :: "jsval \<Rightarrow> bool" where
  "isArray (JArr xs) = True"
| "isArray v = False"

datatype exn = TypeError | SyntaxError | Error

text \<open>
  Reading a property \<open>v.k\<close>. On \<open>null\<close> and \<open>undefined\<close> it throws a TypeError. The
  program reads thirteen names only (structuralViabilityScore, viabilityScore, stage,
  summary, recommendedNextStep, nextStep, risks, type, file, filePath, why, whyItMatters,
  explanation), none of which is a property of an array, a string, a number, a boolean or
  of \<open>Object.prototype\<close>: there the read gives \<open>undefined\<close>.
\<close>

fun getProp :: "jsval \<Rightarrow> jsstring \<Rightarrow> exn + jsval" where
  "getProp JUndefined k = Inl TypeError"
| "getProp JNull k = Inl TypeError"
| "getProp (JObj kvs) k = Inr (case map_of kvs k of Some v \<Rightarrow> v | None \<Rightarrow> JUndefined)"
| "getProp v k = Inr JUndefined"

text \<open>The same read where the value is known to be neither \<open>null\<close> nor \<open>undefined\<close>.\<close>

definition field :: "jsval \<Rightarrow> jsstring \<Rightarrow> jsval" where
  "field v k = (case getProp v k of Inr x \<Rightarrow> x | Inl e \<Rightarrow> JUndefined)"

text \<open>The operator \<open>a ?? b\<close>.\<close>

definition nullish :: "jsval \<Rightarrow> jsval \<Rightarrow> jsval" where
  "nullish a b = (if a = JNull \<or> a = JUndefined then b else a)"

section \<open>Score and string coercion\<close>

text \<open>
  \<open>Math.round\<close> returns the integer closest to its argument, the one closer to
  \<open>+\<infinity>\<close> of two equally close ones.
\<close>

definition Math_round :: "rat \<Rightarrow> rat" where
  "Math_round x = of_int \<lfloor>x + 1 / 2\<rfloor>"

fun clampScore :: "jsval \<Rightarrow> rat" where
  "clampScore (JNum NaN) = 0"
| "clampScore (JNum PosInfinity) = 0"
| "clampScore (JNum NegInfinity) = 0"
| "clampScore (JNum (Finite x)) = min 100 (max 0 (Math_round x))"
| "clampScore v = 0"

definition normalizeString :: "jsval \<Rightarrow> jsstring \<Rightarrow> jsstring" where
  "normalizeString v fallback =
     (case v of
        JStr s \<Rightarrow> if trim s \<noteq> [] then trim s else fallback
      | _ \<Rightarrow> fallback)"

section \<open>The risk-type translator\<close>

record RiskTranslation =
  label :: jsstring
  severity :: jsstring
  message :: jsstring

definition translateRisk :: "jsstring \<Rightarrow> RiskTranslation" where
  "translateRisk riskType =
     (let normalized = trim riskType in
      if normalized = js ''APICallInUI'' then
        \<lparr>label = js ''Business logic mixed into UI'',
         severity = redCircle @ js '' High Risk'',
         message = js ''Works for demos, but fragile when adding auth, workflows, or team features.''\<rparr>
      else if normalized = js ''LogicInUI'' then
        \<lparr>label = js ''Logic tangled inside components'',
         severity = orangeCircle @ js '' Medium Risk'',
         message = js ''Hard to test, hard to change '' @ emDash
                   @ js '' every new feature increases risk.''\<rparr>
      else if normalized = js ''FlatStructure'' then
        \<lparr>label = js ''Prototype-only folder structure'',
         severity = redCircle @ js '' Critical Risk'',
         message = js ''Everything lives in one folder '' @ emDash
                   @ js '' evolution will be painful.''\<rparr>
      else if normalized = js ''HugeComponent'' then
        \<lparr>label = js ''Giant '' @ [0x27] @ js ''God'' @ [0x27] @ js '' component'',
         severity = yellowCircle @ js '' Medium-Low Risk'',
         message = js ''One file doing too many jobs '' @ emDash
                   @ js '' a sign of structural fragility.''\<rparr>
      else if normalized = js ''CircularImport'' then
        \<lparr>label = js ''Circular dependency risk'',
         severity = redCircle @ js '' Critical Risk'',
         message = js ''Features begin to break randomly when files depend on each other in loops.''\<rparr>
      else
        \<lparr>label = riskType,
         severity = whiteCircle @ js '' Unknown Risk'',
         message = js ''Risk type not recognized '' @ emDash
                   @ js '' may indicate structural issues.''\<rparr>)"

section \<open>The report normalizer\<close>

record Risk =
  type :: jsstring
  filePath :: jsstring
  explanation :: jsstring

record ReportData =
  structuralViabilityScore :: rat
  stage :: jsstring
  summary :: jsstring
  recommendedNextStep :: jsstring
  risks :: "Risk list"

definition placeholderSummary :: jsstring where
  "placeholderSummary =
     js ''Your app works today '' @ emDash @ js '' but it won't let you grow safely.\<newline>\<newline>''
     @ js ''This is the moment where prototypes either evolve... or break.\<newline>\<newline>''
     @ js ''Your app works now, but it isn't built to survive real features, users, or growth.\<newline>\<newline>''
     @ js ''It looks like a product '' @ emDash @ js '' but it's still structured like a prototype.\<newline>\<newline>''
     @ js ''The more you build on top of this structure (auth, teams, payments, workflows),\<newline>''
     @ js ''the more it begins to resist change.\<newline>\<newline>''
     @ js ''You're not in trouble. You're just at the natural turning point '' @ emDash @ js ''\<newline>''
     @ js ''where speed must start meeting structure.''"

definition placeholderNextStep :: jsstring where
  "placeholderNextStep =
     js ''You don't need to start over.\<newline>\<newline>But you do need to graduate.''"

definition placeholderReport :: ReportData where
  "placeholderReport =
     \<lparr>structuralViabilityScore = 0,
      stage = js ''Awaiting Analysis'',
      summary = placeholderSummary,
      recommendedNextStep = placeholderNextStep,
      risks = []\<rparr>"

text \<open>
  The callback that \<open>asRiskArray\<close> maps over the array: \<open>None\<close> is the \<open>null\<close> it returns
  for an item that is not of type object or is \<open>null\<close>. The property reads come after that
  test, so none of them throws.
\<close>

definition riskOfItem :: "jsval \<Rightarrow> Risk option" where
  "riskOfItem item =
     (if typeof item \<noteq> TObject \<or> item = JNull then None
      else Some
        \<lparr>type = normalizeString (field item (js ''type'')) (js ''Not provided''),
         filePath =
           normalizeString (nullish (field item (js ''file'')) (field item (js ''filePath'')))
             (js ''Not provided''),
         explanation =
           normalizeString
             (nullish (nullish (field item (js ''why'')) (field item (js ''whyItMatters'')))
                (field item (js ''explanation'')))
             (js ''Not provided'')\<rparr>)"

definition asRiskArray :: "jsval \<Rightarrow> Risk list" where
  "asRiskArray v =
     (case v of
        JArr items \<Rightarrow> map the (filter (\<lambda>risk. risk \<noteq> None) (map riskOfItem items))
      | _ \<Rightarrow> [])"

text \<open>
  \<open>mapToReport\<close> starts by reading \<open>raw.structuralViabilityScore\<close>, which throws a
  TypeError when \<open>raw\<close> is \<open>null\<close> or \<open>undefined\<close>; after that read every other one
  is safe.
\<close>

definition mapToReport :: "jsval \<Rightarrow> exn + ReportData" where
  "mapToReport raw =
     (case getProp raw (js ''structuralViabilityScore'') of
        Inl e \<Rightarrow> Inl e
      | Inr canonicalScore \<Rightarrow>
          (let score = nullish canonicalScore (field raw (js ''viabilityScore'')) in
           Inr
             \<lparr>structuralViabilityScore = clampScore score,
              stage = normalizeString (field raw (js ''stage'')) (js ''Not provided''),
              summary = normalizeString (field raw (js ''summary'')) (summary placeholderReport),
              recommendedNextStep =
                normalizeString
                  (nullish (field raw (js ''recommendedNextStep'')) (field raw (js ''nextStep'')))
                  (recommendedNextStep placeholderReport),
              risks = asRiskArray (field raw (js ''risks''))\<rparr>))"

section \<open>The upload handler\<close>

text \<open>
  The component's state: the displayed report, the placeholder flag, the error message and
  the name of the loaded file. (The handler also clears the file input's value, which no
  other code reads; that is left out.)
\<close>

record ui_state =
  report :: ReportData
  isPlaceholder :: bool
  error :: "jsstring option"
  fileName :: "jsstring option"

definition initialState :: ui_state where
  "initialState =
     \<lparr>report = placeholderReport, isPlaceholder = True, error = None, fileName = None\<rparr>"

text \<open>
  What the FileReader delivers for a selected file. Either the read fails and
  \<open>onerror\<close> fires, or it ends and \<open>onload\<close> fires with \<open>reader.result\<close>. That result is
  a string or not; \<open>JSON.parse\<close> is the host's parser, and the model takes a string
  result as what \<open>JSON.parse\<close> does with it: it throws (a SyntaxError) or returns a value.
\<close>

datatype reader_result = NotAString | Text "exn + jsval"

datatype read_outcome = ReadFailed | ReadLoaded reader_result

text \<open>The body of the \<open>try\<close> block up to the normalized report.\<close>

definition parseAndNormalize :: "reader_result \<Rightarrow> exn + ReportData" where
  "parseAndNormalize res =
     (case res of
        NotAString \<Rightarrow> Inl Error
      | Text (Inl e) \<Rightarrow> Inl e
      | Text (Inr parsed) \<Rightarrow> mapToReport parsed)"

text \<open>
  The two callbacks of the reader. \<open>onload\<close> belongs to the read of the file \<open>name\<close>;
  where the \<open>try\<close> block succeeds it leaves the error message as it is.
\<close>

definition onload :: "jsstring \<Rightarrow> reader_result \<Rightarrow> ui_state \<Rightarrow> ui_state" where
  "onload name res s =
     (case parseAndNormalize res of
        Inr normalized \<Rightarrow>
          s\<lparr>report := normalized, isPlaceholder := False, fileName := Some name\<rparr>
      | Inl err \<Rightarrow>
          s\<lparr>error := Some (js ''We could not parse that file. Please confirm it is valid JSON.''),
            report := placeholderReport,
            isPlaceholder := True,
            fileName := None\<rparr>)"

definition onerror :: "ui_state \<Rightarrow> ui_state" where
  "onerror s =
     s\<lparr>error := Some (js ''Something went wrong while reading that file. Please try again.'')\<rparr>"

text \<open>
  The page: the component's state and the reads that have been started and have not ended
  yet, each with the name of its file and what it is going to deliver.
\<close>

record page =
  ui :: ui_state
  pending :: "(jsstring \<times> read_outcome) list"

definition initialPage :: page where
  "initialPage = \<lparr>ui = initialState, pending = []\<rparr>"

text \<open>
  \<open>handleFileChange\<close> with the selected file, if any. It returns at once when there is
  none; otherwise it clears the error message and starts the read (\<open>readAsText\<close>), whose
  callback fires later.
\<close>

definition handleFileChange :: "(jsstring \<times> read_outcome) option \<Rightarrow> page \<Rightarrow> page" where
  "handleFileChange file p =
     (case file of
        None \<Rightarrow> p
      | Some (name, outcome) \<Rightarrow>
          p\<lparr>ui := (ui p)\<lparr>error := None\<rparr>, pending := pending p @ [(name, outcome)]\<rparr>)"

text \<open>The pending read number \<open>i\<close> ends: its callback fires, whatever else is pending.\<close>

definition readEnds :: "nat \<Rightarrow> page \<Rightarrow> page" where
  "readEnds i p =
     (if i < length (pending p) then
        (case pending p ! i of
           (name, outcome) \<Rightarrow>
             p\<lparr>ui := (case outcome of
                         ReadFailed \<Rightarrow> onerror (ui p)
                       | ReadLoaded res \<Rightarrow> onload name res (ui p)),
               pending := take i (pending p) @ drop (Suc i) (pending p)\<rparr>)
      else p)"

text \<open>The events of the page, one after the other.\<close>

datatype event = FileChange "(jsstring \<times> read_outcome) option" | ReadEnds nat

fun step :: "event \<Rightarrow> page \<Rightarrow> page" where
  "step (FileChange file) p = handleFileChange file p"
| "step (ReadEnds i) p = readEnds i p"

fun run :: "event list \<Rightarrow> page \<Rightarrow> page" where
  "run [] p = p"
| "run (e # es) p = run es (step e p)"

text \<open>An upload with no other read pending: the file is selected, then its read ends.\<close>

definition upload :: "jsstring \<Rightarrow> read_outcome \<Rightarrow> page \<Rightarrow> page" where
  "upload name outcome p = run [FileChange (Some (name, outcome)), ReadEnds (length (pending p))] p"

section \<open>The insight aggregator\<close>

datatype Severity = High | Medium | Low

record Insight =
  insightId :: int
  title :: jsstring
  severity :: Severity
  summary :: jsstring
  files :: "jsstring list option"
  recommendation :: "jsstring option"

record Fragility =
  signal :: jsstring
  summary :: jsstring

text \<open>\<open>s.includes(k)\<close>: \<open>k\<close> occurs in \<open>s\<close> as a run of consecutive code units.\<close>

fun str_includes :: "jsstring \<Rightarrow> jsstring \<Rightarrow> bool" where
  "str_includes [] k = (k = [])"
| "str_includes (c # cs) k = (take (length k) (c # cs) = k \<or> str_includes cs k)"

text \<open>
  \<open>String.prototype.toLowerCase\<close> is the host's, with the case mapping of the whole of
  Unicode behind it. The aggregator's definitions take it as their first parameter
  \<open>toLowerCase\<close>, and what is proved of them holds whatever that function is.
\<close>

abbreviation titleHas :: "(jsstring \<Rightarrow> jsstring) \<Rightarrow> Insight \<Rightarrow> string \<Rightarrow> bool" where
  "titleHas toLowerCase i k \<equiv> str_includes (toLowerCase (title i)) (js k)"

definition hasDatabaseRisk :: "(jsstring \<Rightarrow> jsstring) \<Rightarrow> Insight list \<Rightarrow> bool" where
  "hasDatabaseRisk toLowerCase insights =
     list_ex (\<lambda>i. titleHas toLowerCase i ''database'' \<or> titleHas toLowerCase i ''shared''
                   \<or> titleHas toLowerCase i ''schema'')
       insights"

definition hasBottleneck :: "(jsstring \<Rightarrow> jsstring) \<Rightarrow> Insight list \<Rightarrow> bool" where
  "hasBottleneck toLowerCase insights =
     list_ex (\<lambda>i. titleHas toLowerCase i ''auth'' \<or> titleHas toLowerCase i ''identity''
                   \<or> titleHas toLowerCase i ''bottleneck'' \<or> titleHas toLowerCase i ''god'')
       insights"

definition hasExternalDependency :: "(jsstring \<Rightarrow> jsstring) \<Rightarrow> Insight list \<Rightarrow> bool" where
  "hasExternalDependency toLowerCase insights =
     list_ex (\<lambda>i. titleHas toLowerCase i ''stripe'' \<or> titleHas toLowerCase i ''3rd party''
                   \<or> titleHas toLowerCase i ''external'' \<or> titleHas toLowerCase i ''integration'')
       insights"

definition hasCrossDomain :: "(jsstring \<Rightarrow> jsstring) \<Rightarrow> Insight list \<Rightarrow> bool" where
  "hasCrossDomain toLowerCase insights =
     list_ex (\<lambda>i. titleHas toLowerCase i ''cross-domain'' \<or> titleHas toLowerCase i ''coupling''
                   \<or> titleHas toLowerCase i ''domain'')
       insights"

definition topFragilities :: "(jsstring \<Rightarrow> jsstring) \<Rightarrow> Insight list \<Rightarrow> Fragility list" where
  "topFragilities toLowerCase insights =
     map (\<lambda>i.
           \<lparr>signal =
              (if titleHas toLowerCase i ''database'' \<or> titleHas toLowerCase i ''shared''
                 then js ''Shared Database Risk''
               else if titleHas toLowerCase i ''auth'' \<or> titleHas toLowerCase i ''bottleneck''
                 then js ''Structural Bottleneck''
               else if titleHas toLowerCase i ''stripe'' \<or> titleHas toLowerCase i ''integration''
                 then js ''External API Blast Radius''
               else if titleHas toLowerCase i ''cross-domain'' \<or> titleHas toLowerCase i ''coupling''
                 then js ''Cross-Domain Coupling''
               else title i),
            summary = Insight.summary i\<rparr>)
       (take 3 (filter (\<lambda>i. severity i = High \<or> severity i = Medium) insights))"

section \<open>The specification's vocabulary\<close>

text \<open>
  The definitions of this section are not code of the program: they say, in the words of
  the specification, what the theorems below compare the program with.
\<close>

text \<open>The translator's table of known tags, each with its triple.\<close>

definition knownTags :: "(jsstring \<times> RiskTranslation) list" where
  "knownTags =
     [(js ''APICallInUI'',
       \<lparr>label = js ''Business logic mixed into UI'',
        severity = redCircle @ js '' High Risk'',
        message = js ''Works for demos, but fragile when adding auth, workflows, or team features.''\<rparr>),
      (js ''LogicInUI'',
       \<lparr>label = js ''Logic tangled inside components'',
        severity = orangeCircle @ js '' Medium Risk'',
        message = js ''Hard to test, hard to change '' @ emDash
                  @ js '' every new feature increases risk.''\<rparr>),
      (js ''FlatStructure'',
       \<lparr>label = js ''Prototype-only folder structure'',
        severity = redCircle @ js '' Critical Risk'',
        message = js ''Everything lives in one folder '' @ emDash
                  @ js '' evolution will be painful.''\<rparr>),
      (js ''HugeComponent'',
       \<lparr>label = js ''Giant '' @ [0x27] @ js ''God'' @ [0x27] @ js '' component'',
        severity = yellowCircle @ js '' Medium-Low Risk'',
        message = js ''One file doing too many jobs '' @ emDash
                  @ js '' a sign of structural fragility.''\<rparr>),
      (js ''CircularImport'',
       \<lparr>label = js ''Circular dependency risk'',
        severity = redCircle @ js '' Critical Risk'',
        message = js ''Features begin to break randomly when files depend on each other in loops.''\<rparr>)]"

text \<open>The translator's default case: the raw input as the label, the Unknown tier.\<close>

definition unknownRisk :: "jsstring \<Rightarrow> RiskTranslation" where
  "unknownRisk raw =
     \<lparr>label = raw,
      severity = whiteCircle @ js '' Unknown Risk'',
      message = js ''Risk type not recognized '' @ emDash
                @ js '' may indicate structural issues.''\<rparr>"

text \<open>A Risk with all three fields non-empty; a Report as the data model describes it.\<close>

definition populatedRisk :: "Risk \<Rightarrow> bool" where
  "populatedRisk r \<longleftrightarrow> type r \<noteq> [] \<and> filePath r \<noteq> [] \<and> explanation r \<noteq> []"

definition wellFormedReport :: "ReportData \<Rightarrow> bool" where
  "wellFormedReport r \<longleftrightarrow>
     structuralViabilityScore r \<in> \<int> \<and> 0 \<le> structuralViabilityScore r
     \<and> structuralViabilityScore r \<le> 100
     \<and> stage r \<noteq> [] \<and> ReportData.summary r \<noteq> [] \<and> recommendedNextStep r \<noteq> []
     \<and> list_all populatedRisk (risks r)"

text \<open>The report every field of which is its default.\<close>

definition defaultedReport :: ReportData where
  "defaultedReport =
     \<lparr>structuralViabilityScore = 0,
      stage = js ''Not provided'',
      summary = placeholderSummary,
      recommendedNextStep = placeholderNextStep,
      risks = []\<rparr>"

definition defaultedRisk :: Risk where
  "defaultedRisk =
     \<lparr>type = js ''Not provided'', filePath = js ''Not provided'',
      explanation = js ''Not provided''\<rparr>"

text \<open>
  A structured record, as against an ordered sequence: a JSON object. A non-null object in
  the sense of JavaScript is an object or an array.
\<close>

fun isRecord :: "jsval \<Rightarrow> bool" where
  "isRecord (JObj kvs) = True"
| "isRecord v = False"

fun isNonNullObject :: "jsval \<Rightarrow> bool" where
  "isNonNullObject (JObj kvs) = True"
| "isNonNullObject (JArr xs) = True"
| "isNonNullObject v = False"

text \<open>
  A field is present in an item when reading it gives a value other than \<open>undefined\<close>
  and \<open>null\<close>.
\<close>

definition present :: "jsval \<Rightarrow> bool" where
  "present v \<longleftrightarrow> v \<noteq> JUndefined \<and> v \<noteq> JNull"

text \<open>
  Of several names for one logical field, listed in the order of preference, the value of
  the first one that is present.
\<close>

fun firstPresent :: "jsval list \<Rightarrow> jsval" where
  "firstPresent [] = JUndefined"
| "firstPresent (v # vs) = (if present v then v else firstPresent vs)"

text \<open>The trimmed string value, or the fallback text where there is none.\<close>

fun trimmedOr :: "jsstring \<Rightarrow> jsval \<Rightarrow> jsstring" where
  "trimmedOr fallback (JStr s) = (if trim s = [] then fallback else trim s)"
| "trimmedOr fallback v = fallback"

definition normalizedRisk :: "jsval \<Rightarrow> Risk" where
  "normalizedRisk item =
     \<lparr>type = trimmedOr (js ''Not provided'') (field item (js ''type'')),
      filePath =
        trimmedOr (js ''Not provided'')
          (firstPresent [field item (js ''file''), field item (js ''filePath'')]),
      explanation =
        trimmedOr (js ''Not provided'')
          (firstPresent [field item (js ''why''), field item (js ''whyItMatters''),
                         field item (js ''explanation'')])\<rparr>"

text \<open>An object holds a name when the name is one of its own properties, whatever its value.\<close>

fun hasName :: "jsval \<Rightarrow> jsstring \<Rightarrow> bool" where
  "hasName (JObj kvs) k = (map_of kvs k \<noteq> None)"
| "hasName v k = False"

text \<open>
  The Reports in normal form: an integer score from 0 to 100, and every string non-empty
  and with no whitespace at either end.
\<close>

definition trimmed :: "jsstring \<Rightarrow> bool" where
  "trimmed s \<longleftrightarrow> s \<noteq> [] \<and> trim s = s"

definition normalRisk :: "Risk \<Rightarrow> bool" where
  "normalRisk r \<longleftrightarrow> trimmed (type r) \<and> trimmed (filePath r) \<and> trimmed (explanation r)"

definition normalReport :: "ReportData \<Rightarrow> bool" where
  "normalReport r \<longleftrightarrow>
     structuralViabilityScore r \<in> \<int> \<and> 0 \<le> structuralViabilityScore r
     \<and> structuralViabilityScore r \<le> 100
     \<and> trimmed (stage r) \<and> trimmed (ReportData.summary r) \<and> trimmed (recommendedNextStep r)
     \<and> list_all normalRisk (risks r)"

text \<open>The seven names that \<open>mapToReport\<close> reads of its input.\<close>

definition namesRead :: "jsstring list" where
  "namesRead =
     [js ''structuralViabilityScore'', js ''viabilityScore'', js ''stage'', js ''summary'',
      js ''recommendedNextStep'', js ''nextStep'', js ''risks'']"

text \<open>
  The JSON form of a Report: what \<open>JSON.parse(JSON.stringify(report))\<close> gives, an object
  with the five canonical names, each risk an object with its three names.
\<close>

definition riskAsJson :: "Risk \<Rightarrow> jsval" where
  "riskAsJson r =
     JObj [(js ''type'', JStr (type r)), (js ''filePath'', JStr (filePath r)),
           (js ''explanation'', JStr (explanation r))]"

definition reportAsJson :: "ReportData \<Rightarrow> jsval" where
  "reportAsJson r =
     JObj [(js ''structuralViabilityScore'', JNum (Finite (structuralViabilityScore r))),
           (js ''stage'', JStr (stage r)),
           (js ''summary'', JStr (ReportData.summary r)),
           (js ''recommendedNextStep'', JStr (recommendedNextStep r)),
           (js ''risks'', JArr (map riskAsJson (risks r)))]"

text \<open>
  An ordered table of signal categories, each with its keywords: a title falls into the
  first category one of whose keywords it contains, whatever the case, and is its own
  signal when it falls into none.
\<close>

fun classifyBy ::
  "(jsstring \<Rightarrow> jsstring) \<Rightarrow> (jsstring \<times> string list) list \<Rightarrow> jsstring \<Rightarrow> jsstring" where
  "classifyBy toLowerCase [] t = t"
| "classifyBy toLowerCase ((name, keywords) # rest) t =
     (if list_ex (\<lambda>k. str_includes (toLowerCase t) (js k)) keywords then name
      else classifyBy toLowerCase rest t)"

text \<open>
  What \<open>toLowerCase\<close> does to a string of Basic Latin code units (below \<open>0x80\<close>), as
  the titles of the samples below are: the letters A to Z become a to z, the other code
  units stay.
\<close>

definition lowerBasicLatin :: "jsstring \<Rightarrow> jsstring" where
  "lowerBasicLatin s = map (\<lambda>c. if 0x41 \<le> c \<and> c \<le> 0x5A then c + 0x20 else c) s"

text \<open>The four categories with the keyword sets of the four boolean pattern flags.\<close>

definition flagKeywords :: "(jsstring \<times> string list) list" where
  "flagKeywords =
     [(js ''Shared Database Risk'', [''database'', ''shared'', ''schema'']),
      (js ''Structural Bottleneck'', [''auth'', ''identity'', ''bottleneck'', ''god'']),
      (js ''External API Blast Radius'', [''stripe'', ''3rd party'', ''external'', ''integration'']),
      (js ''Cross-Domain Coupling'', [''cross-domain'', ''coupling'', ''domain''])]"

text \<open>The four categories with the keywords the top-fragility selection looks for.\<close>

definition signalKeywords :: "(jsstring \<times> string list) list" where
  "signalKeywords =
     [(js ''Shared Database Risk'', [''database'', ''shared'']),
      (js ''Structural Bottleneck'', [''auth'', ''bottleneck'']),
      (js ''External API Blast Radius'', [''stripe'', ''integration'']),
      (js ''Cross-Domain Coupling'', [''cross-domain'', ''coupling''])]"

text \<open>Sample inputs, on which the theorems below are tried.\<close>

definition aliasedRaw :: jsval where
  "aliasedRaw =
     JObj [(js ''structuralViabilityScore'', JNum (Finite 10)),
           (js ''viabilityScore'', JNum (Finite 90)),
           (js ''nextStep'', JStr (js ''Ship it''))]"

definition aliasedItem :: jsval where
  "aliasedItem =
     JObj [(js ''file'', JStr (js ''a.ts'')), (js ''filePath'', JStr (js ''b.ts'')),
           (js ''whyItMatters'', JStr (js ''w'')), (js ''explanation'', JStr (js ''e''))]"

definition nullCanonicalRaw :: jsval where
  "nullCanonicalRaw =
     JObj [(js ''structuralViabilityScore'', JNull), (js ''viabilityScore'', JNum (Finite 90))]"

definition untidyRaw :: jsval where
  "untidyRaw =
     JObj [(js ''viabilityScore'', JNum (Finite (261 / 2))),
           (js ''stage'', JStr (js '' Graduation '')),
           (js ''summary'', JNum (Finite 7)),
           (js ''risks'',
            JArr [JObj [(js ''file'', JStr (js '' b.ts ''))], JNum (Finite 1),
                  JObj [(js ''file'', JStr (js ''a.ts''))]])]"

definition untidyRawAnnotated :: jsval where
  "untidyRawAnnotated =
     JObj [(js ''comment'', JStr (js ''draft'')),
           (js ''viabilityScore'', JNum (Finite (261 / 2))),
           (js ''stage'', JStr (js '' Graduation '')),
           (js ''summary'', JNum (Finite 7)),
           (js ''risks'',
            JArr [JObj [(js ''file'', JStr (js '' b.ts ''))], JNum (Finite 1),
                  JObj [(js ''file'', JStr (js ''a.ts''))]])]"

definition untidyReport :: ReportData where
  "untidyReport =
     \<lparr>structuralViabilityScore = 100,
      stage = js ''Graduation'',
      summary = placeholderSummary,
      recommendedNextStep = placeholderNextStep,
      risks = [\<lparr>type = js ''Not provided'', filePath = js ''b.ts'',
                explanation = js ''Not provided''\<rparr>,
               \<lparr>type = js ''Not provided'', filePath = js ''a.ts'',
                explanation = js ''Not provided''\<rparr>]\<rparr>"

definition gradedRaw :: jsval where
  "gradedRaw =
     JObj [(js ''structuralViabilityScore'', JNum (Finite 50)),
           (js ''stage'', JStr (js ''Graduation''))]"

definition gradedReport :: ReportData where
  "gradedReport =
     \<lparr>structuralViabilityScore = 50,
      stage = js ''Graduation'',
      summary = placeholderSummary,
      recommendedNextStep = placeholderNextStep,
      risks = []\<rparr>"

text \<open>The page after a first upload, of a file with the text of \<open>gradedRaw\<close>.\<close>

definition loadedPage :: page where
  "loadedPage = upload (js ''report.json'') (ReadLoaded (Text (Inr gradedRaw))) initialPage"

definition parseMessage :: jsstring where
  "parseMessage = js ''We could not parse that file. Please confirm it is valid JSON.''"

definition readMessage :: jsstring where
  "readMessage = js ''Something went wrong while reading that file. Please try again.''"

definition schemaInsight :: Insight where
  "schemaInsight =
     \<lparr>insightId = 1, title = js ''Schema Drift'', severity = High, summary = js ''s'',
      files = None, recommendation = None\<rparr>"

definition sampleInsights :: "Insight list" where
  "sampleInsights =
     [\<lparr>insightId = 0, title = js ''Legacy Domain Helpers'', severity = Low,
       summary = js ''s0'', files = None, recommendation = None\<rparr>,
      \<lparr>insightId = 1, title = js ''Shared Database Fragility'', severity = High,
       summary = js ''s1'', files = None, recommendation = None\<rparr>,
      \<lparr>insightId = 2, title = js ''Auth Service as Structural Bottleneck'', severity = High,
       summary = js ''s2'', files = None, recommendation = None\<rparr>,
      \<lparr>insightId = 3, title = js ''Stripe Integration Blast Radius'', severity = Medium,
       summary = js ''s3'', files = None, recommendation = None\<rparr>,
      \<lparr>insightId = 4, title = js ''Cross-Domain Database Write Fragility'', severity = High,
       summary = js ''s4'', files = None, recommendation = None\<rparr>]"

section \<open>Trimming\<close>

lemma trim_Cons_keep:
  "\<not> isWhiteSpace x \<Longrightarrow> trim (x # t) = x # rev (dropWhile isWhiteSpace (rev t))"
  by (simp add: trim_def dropWhile_append)

lemma trim_Cons_drop: "isWhiteSpace x \<Longrightarrow> trim (x # t) = trim t"
  by (simp add: trim_def)

lemma trim_hd: "trim s \<noteq> [] \<Longrightarrow> \<not> isWhiteSpace (hd (trim s))"
proof (induction s)
  case Nil
  then show ?case by (simp add: trim_def)
next
  case (Cons x t)
  then show ?case by (cases "isWhiteSpace x") (simp_all add: trim_Cons_keep trim_Cons_drop)
qed

lemma trim_last: "trim s \<noteq> [] \<Longrightarrow> \<not> isWhiteSpace (last (trim s))"
proof -
  let ?e = "dropWhile isWhiteSpace (rev (dropWhile isWhiteSpace s))"
  assume "trim s \<noteq> []"
  then have ne: "?e \<noteq> []" by (simp add: trim_def)
  then have "\<not> isWhiteSpace (hd ?e)" by (rule hd_dropWhile)
  moreover have "last (trim s) = hd ?e" using ne by (simp add: trim_def last_rev)
  ultimately show ?thesis by simp
qed

lemma trim_noop:
  assumes "s \<noteq> []" "\<not> isWhiteSpace (hd s)" "\<not> isWhiteSpace (last s)"
  shows "trim s = s"
proof -
  from assms have a: "dropWhile isWhiteSpace s = s" by (cases s) auto
  from assms have "dropWhile isWhiteSpace (rev s) = rev s" by (cases "rev s") (auto simp: hd_rev)
  with a show ?thesis by (simp add: trim_def)
qed

lemma trim_idem: "trim (trim s) = trim s"
proof (cases "trim s = []")
  case True
  have "trim [] = []" by (simp add: trim_def)
  with True show ?thesis by simp
next
  case False
  then show ?thesis by (intro trim_noop trim_hd trim_last)
qed

lemma dropWhile_all: "\<forall>c\<in>set a. P c \<Longrightarrow> dropWhile P (a @ t) = dropWhile P t"
  by (simp add: dropWhile_append)

lemma trim_prefix: "\<forall>c\<in>set a. isWhiteSpace c \<Longrightarrow> trim (a @ t) = trim t"
  by (simp add: trim_def dropWhile_all)

lemma trim_suffix:
  assumes b: "\<forall>c\<in>set b. isWhiteSpace c"
  shows "trim (t @ b) = trim t"
proof (cases "\<forall>c\<in>set t. isWhiteSpace c")
  case True
  then have "dropWhile isWhiteSpace (t @ b) = []" and "dropWhile isWhiteSpace t = []"
    using b by simp_all
  then show ?thesis by (simp only: trim_def)
next
  case False
  then have "dropWhile isWhiteSpace (t @ b) = dropWhile isWhiteSpace t @ b"
    by (auto simp: dropWhile_append)
  then have "trim (t @ b) = rev (dropWhile isWhiteSpace (rev b @ rev (dropWhile isWhiteSpace t)))"
    by (simp only: trim_def rev_append)
  also have "\<dots> = rev (dropWhile isWhiteSpace (rev (dropWhile isWhiteSpace t)))"
    using b by (subst dropWhile_all) simp_all
  finally show ?thesis by (simp only: trim_def)
qed

lemma trim_padded:
  "\<forall>c\<in>set a. isWhiteSpace c \<Longrightarrow> \<forall>c\<in>set b. isWhiteSpace c \<Longrightarrow> trim (a @ t @ b) = trim t"
  by (simp add: trim_prefix trim_suffix)

section \<open>Properties of the score coercion\<close>

lemma Math_round_int: "Math_round x \<in> \<int>"
  by (simp add: Math_round_def)

lemma Math_round_nearest: "x - 1 / 2 < Math_round x \<and> Math_round x \<le> x + 1 / 2"
  unfolding Math_round_def by linarith

lemma clampScore_range: "clampScore v \<in> \<int> \<and> 0 \<le> clampScore v \<and> clampScore v \<le> 100"
proof (induction v rule: clampScore.induct)
  case (4 x)
  have "min 100 (max 0 (Math_round x)) \<in> \<int>"
    using Math_round_int [of x] by (simp add: min_def max_def)
  then show ?case by simp
qed simp_all

lemma clampScore_not_number: "typeof v \<noteq> TNumber \<Longrightarrow> clampScore v = 0"
  by (cases v) simp_all

text \<open>
  Claim C2. \<open>clampScore\<close> gives 0 for whatever is not a number, for NaN and for the two
  infinities. For a finite number it gives the number rounded to the nearest integer, a
  half going up, and then clamped to the range from 0 to 100: the rounded value is the
  integer \<open>r\<close> with \<open>x - 1/2 < r \<le> x + 1/2\<close>. The result is always an integer between 0
  and 100; \<open>-5\<close> gives 0, \<open>150\<close> gives 100 and \<open>42.5\<close> gives 43.
\<close>

theorem clampScore_rounds_then_clamps:
  "(typeof v \<noteq> TNumber \<or> v = JNum NaN \<or> v = JNum PosInfinity \<or> v = JNum NegInfinity
      \<longrightarrow> clampScore v = 0)
   \<and> clampScore (JNum (Finite x)) = min 100 (max 0 (Math_round x))
   \<and> Math_round x \<in> \<int> \<and> x - 1 / 2 < Math_round x \<and> Math_round x \<le> x + 1 / 2
   \<and> clampScore v \<in> \<int> \<and> 0 \<le> clampScore v \<and> clampScore v \<le> 100
   \<and> clampScore (JNum (Finite (- 5))) = 0
   \<and> clampScore (JNum (Finite 150)) = 100
   \<and> clampScore (JNum (Finite (85 / 2))) = 43"
proof -
  have a: "typeof v \<noteq> TNumber \<or> v = JNum NaN \<or> v = JNum PosInfinity \<or> v = JNum NegInfinity
      \<longrightarrow> clampScore v = 0"
    using clampScore_not_number by auto
  have e1: "clampScore (JNum (Finite (- 5))) = 0" by (simp add: Math_round_def)
  have e2: "clampScore (JNum (Finite 150)) = 100" by (simp add: Math_round_def)
  have e3: "clampScore (JNum (Finite (85 / 2))) = 43" by (simp add: Math_round_def)
  show ?thesis
    using a e1 e2 e3 Math_round_int [of x] Math_round_nearest [of x] clampScore_range [of v]
    by simp
qed

theorem clampScore_rounds_then_clamps_witness:
  "typeof (JStr (js ''78'')) \<noteq> TNumber \<and> clampScore (JStr (js ''78'')) = 0
   \<and> clampScore (JNum PosInfinity) = 0
   \<and> clampScore (JNum (Finite (85 / 2))) = 43 \<and> Math_round (85 / 2) = 43"
  using clampScore_rounds_then_clamps [of "JStr (js ''78'')" "85 / 2"]
    clampScore_rounds_then_clamps [of "JNum PosInfinity" "85 / 2"]
  by (simp add: Math_round_def)

section \<open>Properties of the translator\<close>

lemma js_simps: "js [] = []" "js (c # cs) = of_char c # js cs"
  by (simp_all add: js_def)

lemma tags_trimmed:
  "trim (js ''APICallInUI'') = js ''APICallInUI''"
  "trim (js ''LogicInUI'') = js ''LogicInUI''"
  "trim (js ''FlatStructure'') = js ''FlatStructure''"
  "trim (js ''HugeComponent'') = js ''HugeComponent''"
  "trim (js ''CircularImport'') = js ''CircularImport''"
  by (simp_all add: trim_def isWhiteSpace_def js_simps)

lemma translateRisk_lookup:
  "translateRisk s = (case map_of knownTags (trim s) of Some t \<Rightarrow> t | None \<Rightarrow> unknownRisk s)"
  by (simp add: translateRisk_def knownTags_def unknownRisk_def Let_def js_simps)

lemma knownTags_names:
  "map fst knownTags =
     [js ''APICallInUI'', js ''LogicInUI'', js ''FlatStructure'', js ''HugeComponent'',
      js ''CircularImport'']"
  by (simp add: knownTags_def)

lemma knownTags_distinct: "distinct (map fst knownTags)"
  by (simp add: knownTags_names js_simps)

lemma knownTags_trimmed: "(tag, t) \<in> set knownTags \<Longrightarrow> trim tag = tag"
  using tags_trimmed by (auto simp add: knownTags_def)

lemma translateRisk_padded:
  assumes "\<forall>c\<in>set a. isWhiteSpace c" "\<forall>c\<in>set b. isWhiteSpace c" "(tag, t) \<in> set knownTags"
  shows "translateRisk (a @ tag @ b) = t"
proof -
  have "trim (a @ tag @ b) = tag"
    using assms by (simp add: trim_padded knownTags_trimmed)
  moreover have "map_of knownTags tag = Some t"
    using assms(3) knownTags_distinct by (rule_tac map_of_is_SomeI)
  ultimately show ?thesis by (simp add: translateRisk_lookup)
qed

lemma translateRisk_unknown:
  assumes "trim s \<notin> set (map fst knownTags)"
  shows "translateRisk s = unknownRisk s"
proof -
  from assms have "map_of knownTags (trim s) = None"
    by (simp add: map_of_eq_None_iff)
  then show ?thesis by (simp add: translateRisk_lookup)
qed

text \<open>
  Claim C3. \<open>translateRisk\<close> is a lookup of the trimmed input in the table of the five
  known tags, so a known tag is recognised whatever whitespace surrounds it; APICallInUI has
  the label "Business logic mixed into UI" and the High Risk tier. An input whose trimmed
  form is none of the five tags, the empty string among them, gets the default: the raw
  input (untrimmed) as the label, the Unknown tier and the fixed disclaimer.
\<close>

theorem translateRisk_dispatch:
  "translateRisk s = (case map_of knownTags (trim s) of Some t \<Rightarrow> t | None \<Rightarrow> unknownRisk s)
   \<and> map fst knownTags =
       [js ''APICallInUI'', js ''LogicInUI'', js ''FlatStructure'', js ''HugeComponent'',
        js ''CircularImport'']
   \<and> ((\<forall>c\<in>set a. isWhiteSpace c) \<and> (\<forall>c\<in>set b. isWhiteSpace c) \<and> (tag, t) \<in> set knownTags
        \<longrightarrow> translateRisk (a @ tag @ b) = t)
   \<and> (trim s \<notin> set (map fst knownTags) \<longrightarrow> translateRisk s = unknownRisk s)
   \<and> translateRisk [] = unknownRisk []
   \<and> label (unknownRisk s) = s
   \<and> RiskTranslation.severity (unknownRisk s) = whiteCircle @ js '' Unknown Risk''
   \<and> label (translateRisk (js ''APICallInUI'')) = js ''Business logic mixed into UI''
   \<and> RiskTranslation.severity (translateRisk (js ''APICallInUI'')) = redCircle @ js '' High Risk''"
proof -
  have e: "translateRisk [] = unknownRisk []"
    by (simp add: translateRisk_lookup knownTags_def trim_def js_simps)
  have u: "label (unknownRisk s) = s
     \<and> RiskTranslation.severity (unknownRisk s) = whiteCircle @ js '' Unknown Risk''"
    by (simp add: unknownRisk_def)
  have k: "label (translateRisk (js ''APICallInUI'')) = js ''Business logic mixed into UI''
     \<and> RiskTranslation.severity (translateRisk (js ''APICallInUI'')) = redCircle @ js '' High Risk''"
    by (simp add: translateRisk_lookup tags_trimmed knownTags_def)
  show ?thesis
    using translateRisk_lookup [of s] knownTags_names translateRisk_padded [of a b tag t]
      translateRisk_unknown [of s] e u k
    by simp
qed

theorem translateRisk_dispatch_witness:
  "list_all isWhiteSpace (js '' '' @ [0x9]) \<and> list_all isWhiteSpace [0xA, 0xA0]
   \<and> (js ''LogicInUI'', snd (knownTags ! 1)) \<in> set knownTags
   \<and> RiskTranslation.severity (translateRisk ((js '' '' @ [0x9]) @ js ''LogicInUI'' @ [0xA, 0xA0]))
       = orangeCircle @ js '' Medium Risk''
   \<and> trim (js ''TotallyNewTag'') \<notin> set (map fst knownTags)
   \<and> label (translateRisk (js ''TotallyNewTag'')) = js ''TotallyNewTag''"
proof -
  have w: "(\<forall>c\<in>set (js '' '' @ [0x9]). isWhiteSpace c) \<and> (\<forall>c\<in>set [0xA, 0xA0]. isWhiteSpace c)"
    by (simp add: isWhiteSpace_def js_simps)
  have m: "(js ''LogicInUI'', snd (knownTags ! 1)) \<in> set knownTags"
    by (simp add: knownTags_def)
  have s: "RiskTranslation.severity (snd (knownTags ! 1)) = orangeCircle @ js '' Medium Risk''"
    by (simp add: knownTags_def)
  have n: "trim (js ''TotallyNewTag'') \<notin> set (map fst knownTags)"
    by (simp add: knownTags_def trim_def isWhiteSpace_def js_simps)
  note T = translateRisk_dispatch [of "js ''TotallyNewTag''" "js '' '' @ [0x9]" "[0xA, 0xA0]"
        "js ''LogicInUI''" "snd (knownTags ! 1)"]
  from T w m have 1: "translateRisk ((js '' '' @ [0x9]) @ js ''LogicInUI'' @ [0xA, 0xA0])
      = snd (knownTags ! 1)"
    by blast
  from T n have 2: "translateRisk (js ''TotallyNewTag'') = unknownRisk (js ''TotallyNewTag'')"
    by blast
  have 3: "label (unknownRisk (js ''TotallyNewTag'')) = js ''TotallyNewTag''"
    by (simp add: unknownRisk_def)
  show ?thesis
    using w m n by (simp only: 1 2 3 s simp_thms list_all_iff)
qed

section \<open>Properties of the normalizer\<close>

lemma unat_of_char: "unat (of_char c :: 16 word) = of_char c"
proof -
  have "unat (of_nat (of_char c) :: 16 word) = of_char c mod 2 ^ 16"
    by (simp only: unat_of_nat len_of_numeral_defs) simp
  moreover have "(of_char c :: nat) < 2 ^ 16"
    by (rule less_trans [OF nat_of_char_less_256]) simp
  ultimately show ?thesis by (simp add: of_nat_of_char)
qed

lemma of_char_word_eq_iff: "(of_char c :: 16 word) = of_char d \<longleftrightarrow> c = d"
proof
  assume "(of_char c :: 16 word) = of_char d"
  then have "unat (of_char c :: 16 word) = unat (of_char d :: 16 word)" by simp
  then show "c = d" by (simp only: unat_of_char of_char_eq_iff)
qed simp

lemma js_eq_iff: "js s = js t \<longleftrightarrow> s = t"
  unfolding js_def by (rule inj_map_eq_map) (simp add: inj_def of_char_word_eq_iff)


lemma field_of [simp]:
  "field (JObj kvs) k = (case map_of kvs k of Some v \<Rightarrow> v | None \<Rightarrow> JUndefined)"
  "field (JArr xs) k = JUndefined"
  "field (JStr s) k = JUndefined"
  "field (JNum n) k = JUndefined"
  "field (JBool b) k = JUndefined"
  "field JNull k = JUndefined"
  "field JUndefined k = JUndefined"
  by (simp_all add: field_def)

lemma getProp_field: "v \<noteq> JNull \<Longrightarrow> v \<noteq> JUndefined \<Longrightarrow> getProp v k = Inr (field v k)"
  by (cases v) simp_all

lemma normalizeString_trimmedOr: "normalizeString v fallback = trimmedOr fallback v"
  by (cases v) (simp_all add: normalizeString_def)

lemma trimmedOr_nonempty: "fallback \<noteq> [] \<Longrightarrow> trimmedOr fallback v \<noteq> []"
  by (cases v) simp_all

lemma normalizeString_nullish2:
  "normalizeString (nullish a b) fb = trimmedOr fb (firstPresent [a, b])"
  by (cases a; cases b) (simp_all add: nullish_def present_def normalizeString_trimmedOr)

lemma normalizeString_nullish3:
  "normalizeString (nullish (nullish a b) c) fb = trimmedOr fb (firstPresent [a, b, c])"
  by (cases a; cases b; cases c) (simp_all add: nullish_def present_def normalizeString_trimmedOr)

lemma clampScore_nullish: "clampScore (nullish a b) = clampScore (firstPresent [a, b])"
  by (cases a; cases b) (simp_all add: nullish_def present_def)

lemma notObject_iff: "(typeof v \<noteq> TObject \<or> v = JNull) = (\<not> isNonNullObject v)"
  by (cases v) simp_all

lemma riskOfItem_eq:
  "riskOfItem item = (if isNonNullObject item then Some (normalizedRisk item) else None)"
  unfolding riskOfItem_def normalizedRisk_def notObject_iff normalizeString_nullish3
  unfolding normalizeString_nullish2
  unfolding normalizeString_trimmedOr
  by simp

lemma map_the_filter: 
  "map the (filter (\<lambda>r. r \<noteq> None) (map (\<lambda>x. if P x then Some (f x) else None) xs))
     = map f (filter P xs)"
  by (induction xs) simp_all

lemma asRiskArray_JArr: "asRiskArray (JArr items) = map normalizedRisk (filter isNonNullObject items)"
proof -
  have r: "riskOfItem = (\<lambda>x. if isNonNullObject x then Some (normalizedRisk x) else None)"
    by (rule ext) (rule riskOfItem_eq)
  show ?thesis by (simp only: asRiskArray_def jsval.case r map_the_filter)
qed

lemma asRiskArray_not_array: "\<not> isArray v \<Longrightarrow> asRiskArray v = []"
  by (cases v) (simp_all add: asRiskArray_def)

lemma NP_nonempty: "js ''Not provided'' \<noteq> []"
  by (simp add: js_simps)

lemma normalizedRisk_populated: "populatedRisk (normalizedRisk item)"
  by (simp add: populatedRisk_def normalizedRisk_def trimmedOr_nonempty NP_nonempty)

lemma asRiskArray_populated: "list_all populatedRisk (asRiskArray v)"
proof (cases v)
  case (JArr items)
  then show ?thesis by (simp add: asRiskArray_JArr list_all_iff normalizedRisk_populated)
qed (simp_all add: asRiskArray_def)

lemma js_Nil_iff: "js s = [] \<longleftrightarrow> s = []"
  by (simp add: js_def)

lemma placeholders_nonempty: "placeholderSummary \<noteq> []" "placeholderNextStep \<noteq> []"
  by (simp_all add: placeholderSummary_def placeholderNextStep_def js_Nil_iff)

lemma mapToReport_eq:
  assumes "raw \<noteq> JNull" "raw \<noteq> JUndefined"
  shows "mapToReport raw = Inr
     \<lparr>structuralViabilityScore =
        clampScore (firstPresent [field raw (js ''structuralViabilityScore''),
                                 field raw (js ''viabilityScore'')]),
      stage = trimmedOr (js ''Not provided'') (field raw (js ''stage'')),
      summary = trimmedOr placeholderSummary (field raw (js ''summary'')),
      recommendedNextStep =
        trimmedOr placeholderNextStep
          (firstPresent [field raw (js ''recommendedNextStep''), field raw (js ''nextStep'')]),
      risks = asRiskArray (field raw (js ''risks''))\<rparr>"
  unfolding mapToReport_def getProp_field [OF assms] Let_def sum.case clampScore_nullish
    normalizeString_nullish2
  unfolding normalizeString_trimmedOr placeholderReport_def
  by simp

lemma mapToReport_null: "mapToReport JNull = Inl TypeError" "mapToReport JUndefined = Inl TypeError"
  by (simp_all add: mapToReport_def)

lemma mapToReport_wellFormed:
  assumes "mapToReport raw = Inr r"
  shows "wellFormedReport r"
proof -
  from assms have n: "raw \<noteq> JNull" "raw \<noteq> JUndefined"
    by (auto simp: mapToReport_null)
  show ?thesis
    using assms clampScore_range
    unfolding mapToReport_eq [OF n] wellFormedReport_def
    by (auto simp: trimmedOr_nonempty NP_nonempty placeholders_nonempty asRiskArray_populated)
qed

lemma mapToReport_non_record:
  assumes "raw \<noteq> JNull" "raw \<noteq> JUndefined" "\<not> isRecord raw"
  shows "mapToReport raw = Inr defaultedReport"
  using assms by (cases raw) (simp_all add: mapToReport_eq defaultedReport_def present_def asRiskArray_def)




text \<open>
  Claim C4, as stated, fails on an element that is an array: it is not a structured
  record, yet it is not dropped, and comes out as a Risk of defaults.
\<close>

theorem asRiskArray_array_item_kept:
  "\<not> isRecord (JArr []) \<and> asRiskArray (JArr [JArr []]) = [defaultedRisk]
   \<and> asRiskArray (JArr [JArr []]) \<noteq> []"
  by (simp add: asRiskArray_JArr normalizedRisk_def defaultedRisk_def present_def)

text \<open>
  Claim C4, amended. \<open>asRiskArray\<close> gives the empty sequence for whatever is not an
  array. Of an array it drops the elements that are not non-null objects in the sense of
  JavaScript (\<open>null\<close>, booleans, numbers, strings), keeps the others, objects and arrays
  alike, in their order, and turns each into a Risk whose type, filePath and explanation
  are the trimmed string value or "Not provided"; every such Risk has three non-empty
  fields. The array \<open>[1, "x", null, {type: "A"}]\<close> gives exactly one Risk.
\<close>

theorem asRiskArray_normalizes:
  "(\<not> isArray v \<longrightarrow> asRiskArray v = [])
   \<and> asRiskArray (JArr items) = map normalizedRisk (filter isNonNullObject items)
   \<and> list_all populatedRisk (asRiskArray v)
   \<and> asRiskArray
        (JArr [JNum (Finite 1), JStr (js ''x''), JNull, JObj [(js ''type'', JStr (js ''A''))]])
       = [\<lparr>type = js ''A'', filePath = js ''Not provided'', explanation = js ''Not provided''\<rparr>]"
proof -
  have "trim (js ''A'') = js ''A''"
    by (simp add: trim_def isWhiteSpace_def js_simps)
  then have "asRiskArray
        (JArr [JNum (Finite 1), JStr (js ''x''), JNull, JObj [(js ''type'', JStr (js ''A''))]])
       = [\<lparr>type = js ''A'', filePath = js ''Not provided'', explanation = js ''Not provided''\<rparr>]"
    by (simp add: asRiskArray_JArr normalizedRisk_def present_def js_simps)
  then show ?thesis
    using asRiskArray_not_array [of v] asRiskArray_JArr [of items] asRiskArray_populated [of v]
    by blast
qed

theorem asRiskArray_normalizes_witness:
  "\<not> isArray (JStr (js ''risks'')) \<and> asRiskArray (JStr (js ''risks'')) = []
   \<and> asRiskArray (JArr [JNull, JObj [(js ''file'', JStr (js '' a.ts ''))], JBool True])
       = [\<lparr>type = js ''Not provided'', filePath = js ''a.ts'', explanation = js ''Not provided''\<rparr>]"
proof -
  note T = asRiskArray_normalizes [of "JStr (js ''risks'')"
      "[JNull, JObj [(js ''file'', JStr (js '' a.ts ''))], JBool True]"]
  have h: "\<not> isArray (JStr (js ''risks''))" by simp
  with T have 1: "asRiskArray (JStr (js ''risks'')) = []" by blast
  from T have 2: "asRiskArray (JArr [JNull, JObj [(js ''file'', JStr (js '' a.ts ''))], JBool True])
      = map normalizedRisk
          (filter isNonNullObject [JNull, JObj [(js ''file'', JStr (js '' a.ts ''))], JBool True])"
    by blast
  have 3: "trim (js '' a.ts '') = js ''a.ts''"
    by (simp add: trim_def isWhiteSpace_def js_simps)
  show ?thesis
    unfolding 1 2 using h 3 by (simp add: normalizedRisk_def present_def js_simps)
qed

lemma normalizedRisk_JArr: "normalizedRisk (JArr xs) = defaultedRisk"
  by (simp add: normalizedRisk_def defaultedRisk_def present_def)

lemma asRiskArray_append:
  "asRiskArray (JArr (xs @ ys)) = asRiskArray (JArr xs) @ asRiskArray (JArr ys)"
  by (simp add: asRiskArray_JArr)

lemma riskOfItem_None_iff: "riskOfItem item = None \<longleftrightarrow> item = JNull \<or> typeof item \<noteq> TObject"
  by (cases item) (simp_all add: riskOfItem_eq)

text \<open>
  Claim C10. An element of the array that is itself an array is not dropped: it passes
  the test of \<open>asRiskArray\<close> and becomes the Risk with "Not provided" in its three fields,
  at its place in the sequence. The elements dropped are exactly \<open>null\<close> and those whose
  type is not object.
\<close>

theorem asRiskArray_keeps_array_items:
  "riskOfItem (JArr xs) = Some defaultedRisk
   \<and> asRiskArray (JArr [JArr xs]) = [defaultedRisk]
   \<and> asRiskArray (JArr (before @ [JArr xs] @ after))
       = asRiskArray (JArr before) @ [defaultedRisk] @ asRiskArray (JArr after)
   \<and> defaultedRisk
       = \<lparr>type = js ''Not provided'', filePath = js ''Not provided'',
          explanation = js ''Not provided''\<rparr>
   \<and> (riskOfItem item = None \<longleftrightarrow> item = JNull \<or> typeof item \<noteq> TObject)
   \<and> length (asRiskArray (JArr items))
       = length (filter (\<lambda>item. \<not> (item = JNull \<or> typeof item \<noteq> TObject)) items)"
proof -
  have 1: "riskOfItem (JArr xs) = Some defaultedRisk"
    by (simp add: riskOfItem_eq normalizedRisk_JArr)
  have 2: "asRiskArray (JArr [JArr xs]) = [defaultedRisk]"
    by (simp add: asRiskArray_JArr normalizedRisk_JArr)
  have 3: "asRiskArray (JArr (before @ [JArr xs] @ after))
       = asRiskArray (JArr before) @ [defaultedRisk] @ asRiskArray (JArr after)"
    by (simp only: asRiskArray_append 2)
  have "isNonNullObject = (\<lambda>item. \<not> (item = JNull \<or> typeof item \<noteq> TObject))"
  proof
    fix item show "isNonNullObject item = (\<not> (item = JNull \<or> typeof item \<noteq> TObject))"
      by (cases item) simp_all
  qed
  then have 4: "length (asRiskArray (JArr items))
       = length (filter (\<lambda>item. \<not> (item = JNull \<or> typeof item \<noteq> TObject)) items)"
    by (simp add: asRiskArray_JArr)
  show ?thesis
    using 1 2 3 4 riskOfItem_None_iff [of item] by (simp only: defaultedRisk_def simp_thms)
qed

theorem asRiskArray_keeps_array_items_witness:
  "asRiskArray (JArr ([JNum (Finite 1)] @ [JArr [JNum (Finite 1), JNum (Finite 2)]] @ [JNull]))
     = [\<lparr>type = js ''Not provided'', filePath = js ''Not provided'',
         explanation = js ''Not provided''\<rparr>]
   \<and> riskOfItem (JStr (js ''x'')) = None"
proof -
  note T = asRiskArray_keeps_array_items [of "[JNum (Finite 1), JNum (Finite 2)]"
      "[JNum (Finite 1)]" "[JNull]" "JStr (js ''x'')" "[]"]
  from T have 1: "asRiskArray (JArr ([JNum (Finite 1)] @ [JArr [JNum (Finite 1), JNum (Finite 2)]] @ [JNull]))
     = asRiskArray (JArr [JNum (Finite 1)]) @ [defaultedRisk] @ asRiskArray (JArr [JNull])"
    by blast
  from T have 2: "riskOfItem (JStr (js ''x'')) = None
      \<longleftrightarrow> JStr (js ''x'') = JNull \<or> typeof (JStr (js ''x'')) \<noteq> TObject"
    by blast
  from T have 3: "defaultedRisk
       = \<lparr>type = js ''Not provided'', filePath = js ''Not provided'',
          explanation = js ''Not provided''\<rparr>"
    by blast
  have 4: "asRiskArray (JArr [JNum (Finite 1)]) = []" "asRiskArray (JArr [JNull]) = []"
    by (simp_all add: asRiskArray_JArr)
  show ?thesis
    unfolding 1 2 4 using 3 by simp
qed

lemma firstPresent_hd: "present a \<Longrightarrow> firstPresent (a # rest) = a"
  by simp

lemma firstPresent_tl: "\<not> present a \<Longrightarrow> firstPresent (a # rest) = firstPresent rest"
  by simp

lemma clampScore_last: "clampScore (firstPresent [b]) = clampScore b"
  by (cases b) (simp_all add: present_def)

lemma trimmedOr_last: "trimmedOr fb (firstPresent [b]) = trimmedOr fb b"
  by (cases b) (simp_all add: present_def)

lemma mapToReport_Inr:
  assumes "mapToReport raw = Inr r"
  shows "r = \<lparr>structuralViabilityScore =
        clampScore (firstPresent [field raw (js ''structuralViabilityScore''),
                                 field raw (js ''viabilityScore'')]),
      stage = trimmedOr (js ''Not provided'') (field raw (js ''stage'')),
      summary = trimmedOr placeholderSummary (field raw (js ''summary'')),
      recommendedNextStep =
        trimmedOr placeholderNextStep
          (firstPresent [field raw (js ''recommendedNextStep''), field raw (js ''nextStep'')]),
      risks = asRiskArray (field raw (js ''risks''))\<rparr>"
proof -
  from assms have n: "raw \<noteq> JNull" "raw \<noteq> JUndefined"
    by (auto simp: mapToReport_null)
  from assms show ?thesis unfolding mapToReport_eq [OF n] by simp
qed

lemma riskOfItem_Some: "riskOfItem item = Some risk \<Longrightarrow> risk = normalizedRisk item"
  by (simp add: riskOfItem_eq split: if_splits)

text \<open>
  Claim C5, amended. Where a logical field has several names, the first listed name that
  is present, which is to say holds a value other than \<open>null\<close>, decides the result, also
  when that value is malformed; a name that is missing or holds \<open>null\<close> is passed over
  for the next one: structuralViabilityScore before viabilityScore, recommendedNextStep
  before nextStep, file before filePath, why before whyItMatters before explanation. The
  risk \<open>{file: "a.ts", filePath: "b.ts"}\<close> gets the filePath "a.ts".
\<close>

theorem alias_precedence:
  "(mapToReport raw = Inr r \<and> present (field raw (js ''structuralViabilityScore''))
      \<longrightarrow> structuralViabilityScore r = clampScore (field raw (js ''structuralViabilityScore'')))
   \<and> (mapToReport raw = Inr r \<and> \<not> present (field raw (js ''structuralViabilityScore''))
      \<longrightarrow> structuralViabilityScore r = clampScore (field raw (js ''viabilityScore'')))
   \<and> (mapToReport raw = Inr r \<and> present (field raw (js ''recommendedNextStep''))
      \<longrightarrow> recommendedNextStep r
          = trimmedOr placeholderNextStep (field raw (js ''recommendedNextStep'')))
   \<and> (mapToReport raw = Inr r \<and> \<not> present (field raw (js ''recommendedNextStep''))
      \<longrightarrow> recommendedNextStep r = trimmedOr placeholderNextStep (field raw (js ''nextStep'')))
   \<and> (riskOfItem item = Some risk \<and> present (field item (js ''file''))
      \<longrightarrow> filePath risk = trimmedOr (js ''Not provided'') (field item (js ''file'')))
   \<and> (riskOfItem item = Some risk \<and> \<not> present (field item (js ''file''))
      \<longrightarrow> filePath risk = trimmedOr (js ''Not provided'') (field item (js ''filePath'')))
   \<and> (riskOfItem item = Some risk \<and> present (field item (js ''why''))
      \<longrightarrow> explanation risk = trimmedOr (js ''Not provided'') (field item (js ''why'')))
   \<and> (riskOfItem item = Some risk \<and> \<not> present (field item (js ''why''))
        \<and> present (field item (js ''whyItMatters''))
      \<longrightarrow> explanation risk = trimmedOr (js ''Not provided'') (field item (js ''whyItMatters'')))
   \<and> (riskOfItem item = Some risk \<and> \<not> present (field item (js ''why''))
        \<and> \<not> present (field item (js ''whyItMatters''))
      \<longrightarrow> explanation risk = trimmedOr (js ''Not provided'') (field item (js ''explanation'')))
   \<and> asRiskArray
        (JArr [JObj [(js ''file'', JStr (js ''a.ts'')), (js ''filePath'', JStr (js ''b.ts''))]])
       = [\<lparr>type = js ''Not provided'', filePath = js ''a.ts'',
           explanation = js ''Not provided''\<rparr>]"
proof -
  have s: "structuralViabilityScore r
      = clampScore (firstPresent [field raw (js ''structuralViabilityScore''),
                                  field raw (js ''viabilityScore'')])"
    and n: "recommendedNextStep r
      = trimmedOr placeholderNextStep
          (firstPresent [field raw (js ''recommendedNextStep''), field raw (js ''nextStep'')])"
    if "mapToReport raw = Inr r"
    using mapToReport_Inr [OF that] by simp_all
  have f: "filePath risk
      = trimmedOr (js ''Not provided'')
          (firstPresent [field item (js ''file''), field item (js ''filePath'')])"
    and e: "explanation risk
      = trimmedOr (js ''Not provided'')
          (firstPresent [field item (js ''why''), field item (js ''whyItMatters''),
                         field item (js ''explanation'')])"
    if "riskOfItem item = Some risk"
    using riskOfItem_Some [OF that] by (simp_all add: normalizedRisk_def)
  have t: "trim (js ''a.ts'') = js ''a.ts''"
    by (simp add: trim_def isWhiteSpace_def js_simps)
  have x: "asRiskArray
        (JArr [JObj [(js ''file'', JStr (js ''a.ts'')), (js ''filePath'', JStr (js ''b.ts''))]])
       = [\<lparr>type = js ''Not provided'', filePath = js ''a.ts'',
           explanation = js ''Not provided''\<rparr>]"
    using t by (simp add: asRiskArray_JArr normalizedRisk_def present_def js_simps)
  show ?thesis
    using s n f e x
    by (auto simp del: firstPresent.simps
        simp add: firstPresent_hd firstPresent_tl clampScore_last trimmedOr_last)
qed

lemma trimmedOr_clean:
  assumes "fb \<noteq> []" "trim fb = fb"
  shows "trimmedOr fb v \<noteq> [] \<and> trim (trimmedOr fb v) = trimmedOr fb v"
  using assms by (cases v) (simp_all add: trim_idem)

lemma trimmedOr_JStr_clean: "s \<noteq> [] \<Longrightarrow> trim s = s \<Longrightarrow> trimmedOr fb (JStr s) = s"
  by simp

lemma NP_clean: "trim (js ''Not provided'') = js ''Not provided''"
  by (simp add: trim_def isWhiteSpace_def js_simps)

lemma placeholderSummary_clean: "trim placeholderSummary = placeholderSummary"
proof (rule trim_noop)
  show "placeholderSummary \<noteq> []" by (rule placeholders_nonempty)
  show "\<not> isWhiteSpace (hd placeholderSummary)"
    by (simp add: placeholderSummary_def js_simps isWhiteSpace_def)
  have "last placeholderSummary = last (js ''where speed must start meeting structure.'')"
    by (simp add: placeholderSummary_def js_Nil_iff)
  also have "\<dots> = 0x2E"
    by (simp add: js_simps)
  finally show "\<not> isWhiteSpace (last placeholderSummary)"
    by (simp add: isWhiteSpace_def)
qed

lemma placeholderNextStep_clean: "trim placeholderNextStep = placeholderNextStep"
proof (rule trim_noop)
  show "placeholderNextStep \<noteq> []" by (rule placeholders_nonempty)
  show "\<not> isWhiteSpace (hd placeholderNextStep)"
    by (simp add: placeholderNextStep_def js_simps isWhiteSpace_def)
  have "last placeholderNextStep = 0x2E"
    by (simp add: placeholderNextStep_def js_simps)
  then show "\<not> isWhiteSpace (last placeholderNextStep)"
    by (simp add: isWhiteSpace_def)
qed

lemma Math_round_of_int: "x \<in> \<int> \<Longrightarrow> Math_round x = x"
proof -
  assume "x \<in> \<int>"
  then obtain n where x: "x = of_int n" by (auto simp: Ints_def)
  have "\<lfloor>rat_of_int n + 1 / 2\<rfloor> = n" by linarith
  then show ?thesis by (simp add: Math_round_def x)
qed

lemma clampScore_fixed:
  "x \<in> \<int> \<Longrightarrow> 0 \<le> x \<Longrightarrow> x \<le> 100 \<Longrightarrow> clampScore (JNum (Finite x)) = x"
  by (simp add: Math_round_of_int)

lemma normalizedRisk_riskAsJson:
  assumes "type r \<noteq> []" "trim (type r) = type r"
    "filePath r \<noteq> []" "trim (filePath r) = filePath r"
    "explanation r \<noteq> []" "trim (explanation r) = explanation r"
  shows "normalizedRisk (riskAsJson r) = r"
  using assms by (simp add: normalizedRisk_def riskAsJson_def present_def js_eq_iff)

lemma normalizedRisk_clean:
  "type (normalizedRisk item) \<noteq> [] \<and> trim (type (normalizedRisk item)) = type (normalizedRisk item)
   \<and> filePath (normalizedRisk item) \<noteq> []
   \<and> trim (filePath (normalizedRisk item)) = filePath (normalizedRisk item)
   \<and> explanation (normalizedRisk item) \<noteq> []
   \<and> trim (explanation (normalizedRisk item)) = explanation (normalizedRisk item)"
  using trimmedOr_clean [OF NP_nonempty NP_clean] by (simp add: normalizedRisk_def)

lemma asRiskArray_roundtrip: "asRiskArray (JArr (map riskAsJson (asRiskArray v))) = asRiskArray v"
proof (cases v)
  case (JArr items)
  have "normalizedRisk (riskAsJson (normalizedRisk item)) = normalizedRisk item" for item
    using normalizedRisk_clean [of item] by (intro normalizedRisk_riskAsJson) simp_all
  moreover have "isNonNullObject (riskAsJson r)" for r
    by (simp add: riskAsJson_def)
  ultimately show ?thesis
    by (simp add: JArr asRiskArray_JArr filter_map o_def)
qed (simp_all add: asRiskArray_def)

lemma mapToReport_roundtrip:
  assumes "mapToReport raw = Inr r"
  shows "mapToReport (reportAsJson r) = Inr r"
proof -
  note r = mapToReport_Inr [OF assms]
  have "structuralViabilityScore r \<in> \<int> \<and> 0 \<le> structuralViabilityScore r
      \<and> structuralViabilityScore r \<le> 100"
    by (subst (1 2 3) r) (simp add: clampScore_range del: firstPresent.simps)
  then have 1: "clampScore (JNum (Finite (structuralViabilityScore r))) = structuralViabilityScore r"
    by (intro clampScore_fixed) simp_all
  have "stage r \<noteq> [] \<and> trim (stage r) = stage r"
    by (subst (1 2 3) r) (simp add: trimmedOr_clean NP_nonempty NP_clean)
  then have 2: "trimmedOr (js ''Not provided'') (JStr (stage r)) = stage r"
    by simp
  have "ReportData.summary r \<noteq> [] \<and> trim (ReportData.summary r) = ReportData.summary r"
    by (subst (1 2 3) r)
      (simp add: trimmedOr_clean placeholders_nonempty placeholderSummary_clean)
  then have 3: "trimmedOr placeholderSummary (JStr (ReportData.summary r)) = ReportData.summary r"
    by simp
  have "recommendedNextStep r \<noteq> [] \<and> trim (recommendedNextStep r) = recommendedNextStep r"
    by (subst (1 2 3) r)
      (simp add: trimmedOr_clean placeholders_nonempty placeholderNextStep_clean
        del: firstPresent.simps)
  then have 4: "trimmedOr placeholderNextStep (JStr (recommendedNextStep r)) = recommendedNextStep r"
    by simp
  have 5: "asRiskArray (JArr (map riskAsJson (risks r))) = risks r"
    by (subst (1 2) r) (simp add: asRiskArray_roundtrip)
  have f: "field (reportAsJson r) (js ''structuralViabilityScore'')
        = JNum (Finite (structuralViabilityScore r))"
    "field (reportAsJson r) (js ''stage'') = JStr (stage r)"
    "field (reportAsJson r) (js ''summary'') = JStr (ReportData.summary r)"
    "field (reportAsJson r) (js ''recommendedNextStep'') = JStr (recommendedNextStep r)"
    "field (reportAsJson r) (js ''risks'') = JArr (map riskAsJson (risks r))"
    by (simp_all add: reportAsJson_def js_eq_iff)
  have n: "reportAsJson r \<noteq> JNull" "reportAsJson r \<noteq> JUndefined"
    by (simp_all add: reportAsJson_def)
  have "mapToReport (reportAsJson r) = Inr
     \<lparr>structuralViabilityScore = clampScore (JNum (Finite (structuralViabilityScore r))),
      stage = trimmedOr (js ''Not provided'') (JStr (stage r)),
      summary = trimmedOr placeholderSummary (JStr (ReportData.summary r)),
      recommendedNextStep = trimmedOr placeholderNextStep (JStr (recommendedNextStep r)),
      risks = asRiskArray (JArr (map riskAsJson (risks r)))\<rparr>"
    unfolding mapToReport_eq [OF n] f by (simp add: present_def)
  also have "\<dots> = Inr r"
    unfolding 1 2 3 4 5 by simp
  finally show ?thesis .
qed

theorem alias_precedence_witness:
  "mapToReport aliasedRaw
     = Inr \<lparr>structuralViabilityScore = 10, stage = js ''Not provided'',
            summary = placeholderSummary, recommendedNextStep = js ''Ship it'', risks = []\<rparr>
   \<and> present (field aliasedRaw (js ''structuralViabilityScore''))
   \<and> \<not> present (field aliasedRaw (js ''recommendedNextStep''))
   \<and> riskOfItem aliasedItem
     = Some \<lparr>type = js ''Not provided'', filePath = js ''a.ts'', explanation = js ''w''\<rparr>
   \<and> present (field aliasedItem (js ''file''))
   \<and> \<not> present (field aliasedItem (js ''why''))
   \<and> present (field aliasedItem (js ''whyItMatters''))
   \<and> clampScore (field aliasedRaw (js ''structuralViabilityScore'')) = 10
   \<and> trimmedOr placeholderNextStep (field aliasedRaw (js ''nextStep'')) = js ''Ship it''
   \<and> trimmedOr (js ''Not provided'') (field aliasedItem (js ''file'')) = js ''a.ts''
   \<and> trimmedOr (js ''Not provided'') (field aliasedItem (js ''whyItMatters'')) = js ''w''"
proof -
  let ?r = "\<lparr>structuralViabilityScore = 10, stage = js ''Not provided'',
            summary = placeholderSummary, recommendedNextStep = js ''Ship it'', risks = []\<rparr>"
  let ?k = "\<lparr>type = js ''Not provided'', filePath = js ''a.ts'', explanation = js ''w''\<rparr>"
  have f: "field aliasedRaw (js ''structuralViabilityScore'') = JNum (Finite 10)"
    "field aliasedRaw (js ''viabilityScore'') = JNum (Finite 90)"
    "field aliasedRaw (js ''stage'') = JUndefined"
    "field aliasedRaw (js ''summary'') = JUndefined"
    "field aliasedRaw (js ''recommendedNextStep'') = JUndefined"
    "field aliasedRaw (js ''nextStep'') = JStr (js ''Ship it'')"
    "field aliasedRaw (js ''risks'') = JUndefined"
    by (simp_all add: aliasedRaw_def js_eq_iff)
  have g: "field aliasedItem (js ''type'') = JUndefined"
    "field aliasedItem (js ''file'') = JStr (js ''a.ts'')"
    "field aliasedItem (js ''filePath'') = JStr (js ''b.ts'')"
    "field aliasedItem (js ''why'') = JUndefined"
    "field aliasedItem (js ''whyItMatters'') = JStr (js ''w'')"
    "field aliasedItem (js ''explanation'') = JStr (js ''e'')"
    by (simp_all add: aliasedItem_def js_eq_iff)
  have t: "trim (js ''Ship it'') = js ''Ship it''" "trim (js ''a.ts'') = js ''a.ts''"
    "trim (js ''w'') = js ''w''"
    by (simp_all add: trim_def isWhiteSpace_def js_simps)
  have ne: "js ''Ship it'' \<noteq> []" "js ''a.ts'' \<noteq> []" "js ''w'' \<noteq> []"
    by (simp_all add: js_Nil_iff)
  have v: "clampScore (JNum (Finite 10)) = 10"
    by (rule clampScore_fixed) simp_all
  have n: "aliasedRaw \<noteq> JNull" "aliasedRaw \<noteq> JUndefined"
    by (simp_all add: aliasedRaw_def)
  have m: "mapToReport aliasedRaw = Inr ?r"
    unfolding mapToReport_eq [OF n] f
    by (simp add: t ne v present_def asRiskArray_def del: clampScore.simps)
  have o: "isNonNullObject aliasedItem"
    by (simp add: aliasedItem_def)
  have k: "riskOfItem aliasedItem = Some ?k"
    unfolding riskOfItem_eq normalizedRisk_def g
    by (simp add: o t ne present_def)
  have p: "present (field aliasedRaw (js ''structuralViabilityScore''))"
    "\<not> present (field aliasedRaw (js ''recommendedNextStep''))"
    "present (field aliasedItem (js ''file''))"
    "\<not> present (field aliasedItem (js ''why''))"
    "present (field aliasedItem (js ''whyItMatters''))"
    by (simp_all add: f g present_def)
  note T = alias_precedence [of aliasedRaw ?r aliasedItem ?k]
  from T m p have c1: "structuralViabilityScore ?r
      = clampScore (field aliasedRaw (js ''structuralViabilityScore''))"
    by blast
  from T m p have c2: "recommendedNextStep ?r
      = trimmedOr placeholderNextStep (field aliasedRaw (js ''nextStep''))"
    by blast
  from T k p have c3: "filePath ?k = trimmedOr (js ''Not provided'') (field aliasedItem (js ''file''))"
    by blast
  from T k p have c4: "explanation ?k
      = trimmedOr (js ''Not provided'') (field aliasedItem (js ''whyItMatters''))"
    by blast
  show ?thesis
    using m k p c1 c2 c3 c4 by (simp del: clampScore.simps)
qed

text \<open>
  Claim C5, as stated, fails on an object that holds both names of the score, the
  canonical one with the value \<open>null\<close>: the canonical name is not preferred (that would
  give the default score 0), the alias's value 90 is taken.
\<close>

theorem null_canonical_yields_alias:
  "hasName nullCanonicalRaw (js ''structuralViabilityScore'')
   \<and> hasName nullCanonicalRaw (js ''viabilityScore'')
   \<and> clampScore (field nullCanonicalRaw (js ''structuralViabilityScore'')) = 0
   \<and> mapToReport nullCanonicalRaw = Inr (defaultedReport\<lparr>structuralViabilityScore := 90\<rparr>)"
proof -
  have f: "field nullCanonicalRaw (js ''structuralViabilityScore'') = JNull"
    "field nullCanonicalRaw (js ''viabilityScore'') = JNum (Finite 90)"
    "field nullCanonicalRaw (js ''stage'') = JUndefined"
    "field nullCanonicalRaw (js ''summary'') = JUndefined"
    "field nullCanonicalRaw (js ''recommendedNextStep'') = JUndefined"
    "field nullCanonicalRaw (js ''nextStep'') = JUndefined"
    "field nullCanonicalRaw (js ''risks'') = JUndefined"
    by (simp_all add: nullCanonicalRaw_def js_eq_iff)
  have h: "hasName nullCanonicalRaw (js ''structuralViabilityScore'')"
    "hasName nullCanonicalRaw (js ''viabilityScore'')"
    by (simp_all add: nullCanonicalRaw_def js_eq_iff)
  have v: "clampScore (JNum (Finite 90)) = 90"
    by (rule clampScore_fixed) simp_all
  have n: "nullCanonicalRaw \<noteq> JNull" "nullCanonicalRaw \<noteq> JUndefined"
    by (simp_all add: nullCanonicalRaw_def)
  have "mapToReport nullCanonicalRaw = Inr (defaultedReport\<lparr>structuralViabilityScore := 90\<rparr>)"
    unfolding mapToReport_eq [OF n] f
    by (simp add: v present_def asRiskArray_def defaultedReport_def del: clampScore.simps)
  with h show ?thesis by (simp add: f)
qed

lemma trimmedOr_trimmed: "trimmed fb \<Longrightarrow> trimmed (trimmedOr fb v)"
  using trimmedOr_clean [of fb v] by (simp add: trimmed_def)

lemma fallbacks_trimmed:
  "trimmed (js ''Not provided'')" "trimmed placeholderSummary" "trimmed placeholderNextStep"
  by (simp_all add: trimmed_def NP_nonempty NP_clean placeholders_nonempty
      placeholderSummary_clean placeholderNextStep_clean)

lemma normalizedRisk_normal: "normalRisk (normalizedRisk item)"
  by (simp add: normalRisk_def normalizedRisk_def trimmedOr_trimmed fallbacks_trimmed)

lemma asRiskArray_normal: "list_all normalRisk (asRiskArray v)"
proof (cases v)
  case (JArr items)
  then show ?thesis by (simp add: asRiskArray_JArr list_all_iff normalizedRisk_normal)
qed (simp_all add: asRiskArray_def)

lemma mapToReport_normal:
  assumes "mapToReport raw = Inr r"
  shows "normalReport r"
  unfolding normalReport_def
  by (subst (1 2 3 4 5 6 7) mapToReport_Inr [OF assms])
    (simp add: clampScore_range trimmedOr_trimmed fallbacks_trimmed asRiskArray_normal
      del: firstPresent.simps)

lemma trimmedOr_of_trimmed: "trimmed s \<Longrightarrow> trimmedOr fb (JStr s) = s"
  by (simp add: trimmed_def)

lemma normalRisk_roundtrip: "normalRisk r \<Longrightarrow> normalizedRisk (riskAsJson r) = r"
  by (rule normalizedRisk_riskAsJson) (simp_all add: normalRisk_def trimmed_def)

lemma normal_risks_roundtrip:
  "list_all normalRisk rs \<Longrightarrow> asRiskArray (JArr (map riskAsJson rs)) = rs"
proof -
  assume a: "list_all normalRisk rs"
  have "isNonNullObject (riskAsJson r)" for r
    by (simp add: riskAsJson_def)
  then have "asRiskArray (JArr (map riskAsJson rs)) = map (\<lambda>r. normalizedRisk (riskAsJson r)) rs"
    by (simp add: asRiskArray_JArr filter_map o_def)
  also have "\<dots> = rs"
    using a by (intro map_idI) (simp add: list_all_iff normalRisk_roundtrip)
  finally show ?thesis .
qed

lemma normalReport_roundtrip:
  assumes "normalReport n"
  shows "mapToReport (reportAsJson n) = Inr n"
proof -
  from assms have 1: "clampScore (JNum (Finite (structuralViabilityScore n))) = structuralViabilityScore n"
    by (intro clampScore_fixed) (simp_all add: normalReport_def)
  from assms have 2: "trimmedOr (js ''Not provided'') (JStr (stage n)) = stage n"
    and 3: "trimmedOr placeholderSummary (JStr (ReportData.summary n)) = ReportData.summary n"
    and 4: "trimmedOr placeholderNextStep (JStr (recommendedNextStep n)) = recommendedNextStep n"
    and 5: "asRiskArray (JArr (map riskAsJson (risks n))) = risks n"
    by (simp_all only: normalReport_def trimmedOr_of_trimmed normal_risks_roundtrip)
  have f: "field (reportAsJson n) (js ''structuralViabilityScore'')
        = JNum (Finite (structuralViabilityScore n))"
    "field (reportAsJson n) (js ''stage'') = JStr (stage n)"
    "field (reportAsJson n) (js ''summary'') = JStr (ReportData.summary n)"
    "field (reportAsJson n) (js ''recommendedNextStep'') = JStr (recommendedNextStep n)"
    "field (reportAsJson n) (js ''risks'') = JArr (map riskAsJson (risks n))"
    by (simp_all add: reportAsJson_def js_eq_iff)
  have nn: "reportAsJson n \<noteq> JNull" "reportAsJson n \<noteq> JUndefined"
    by (simp_all add: reportAsJson_def)
  have "mapToReport (reportAsJson n) = Inr
     \<lparr>structuralViabilityScore = clampScore (JNum (Finite (structuralViabilityScore n))),
      stage = trimmedOr (js ''Not provided'') (JStr (stage n)),
      summary = trimmedOr placeholderSummary (JStr (ReportData.summary n)),
      recommendedNextStep = trimmedOr placeholderNextStep (JStr (recommendedNextStep n)),
      risks = asRiskArray (JArr (map riskAsJson (risks n)))\<rparr>"
    unfolding mapToReport_eq [OF nn] f by (simp add: present_def)
  also have "\<dots> = Inr n"
    unfolding 1 2 3 4 5 by simp
  finally show ?thesis .
qed

lemma mapToReport_cong:
  assumes "raw \<noteq> JNull" "raw \<noteq> JUndefined" "raw' \<noteq> JNull" "raw' \<noteq> JUndefined"
    and "list_all (\<lambda>k. field raw k = field raw' k) namesRead"
  shows "mapToReport raw = mapToReport raw'"
  using assms(5) unfolding mapToReport_eq [OF assms(1,2)] mapToReport_eq [OF assms(3,4)]
  by (simp add: namesRead_def)

lemma mapToReport_risks_in_order:
  assumes "mapToReport raw = Inr r" "field raw (js ''risks'') = JArr items"
  shows "risks r = map normalizedRisk (filter isNonNullObject items)"
  by (subst mapToReport_Inr [OF assms(1)]) (simp add: assms(2) asRiskArray_JArr)

text \<open>
  Claim C8. The Report that \<open>mapToReport\<close> returns is determined by what its input holds
  under the seven names it reads: two inputs that agree on them give the same result. Its
  risks are those of the input's array, in the order of the array. Every Report it
  returns is in normal form, and every Report in normal form, whatever the order of its
  risks, is reproduced by \<open>mapToReport\<close> from its JSON form, which has the canonical names
  only; so \<open>mapToReport\<close> reproduces its own output.
\<close>

theorem normalization_stable:
  "(raw \<noteq> JNull \<and> raw \<noteq> JUndefined \<and> raw' \<noteq> JNull \<and> raw' \<noteq> JUndefined
      \<and> list_all (\<lambda>k. field raw k = field raw' k) namesRead
      \<longrightarrow> mapToReport raw = mapToReport raw')
   \<and> (mapToReport raw = Inr r \<and> field raw (js ''risks'') = JArr items
      \<longrightarrow> risks r = map normalizedRisk (filter isNonNullObject items))
   \<and> (mapToReport raw = Inr r \<longrightarrow> normalReport r)
   \<and> (normalReport n \<longrightarrow> mapToReport (reportAsJson n) = Inr n)
   \<and> (mapToReport raw = Inr r \<longrightarrow> mapToReport (reportAsJson r) = Inr r)"
  using mapToReport_cong [of raw raw'] mapToReport_risks_in_order [of raw r items]
    mapToReport_normal [of raw r] normalReport_roundtrip [of n] normalReport_roundtrip [of r]
  by blast

theorem normalization_stable_witness:
  "mapToReport untidyRaw = Inr untidyReport
   \<and> risks untidyReport
       = map normalizedRisk
           (filter isNonNullObject
              [JObj [(js ''file'', JStr (js '' b.ts ''))], JNum (Finite 1),
               JObj [(js ''file'', JStr (js ''a.ts''))]])
   \<and> map filePath (risks untidyReport) = [js ''b.ts'', js ''a.ts'']
   \<and> normalReport untidyReport
   \<and> mapToReport (reportAsJson untidyReport) = Inr untidyReport
   \<and> list_all (\<lambda>k. field untidyRaw k = field untidyRawAnnotated k) namesRead
   \<and> mapToReport untidyRawAnnotated = Inr untidyReport"
proof -
  let ?items = "[JObj [(js ''file'', JStr (js '' b.ts ''))], JNum (Finite 1),
               JObj [(js ''file'', JStr (js ''a.ts''))]]"
  have f: "field untidyRaw (js ''structuralViabilityScore'') = JUndefined"
    "field untidyRaw (js ''viabilityScore'') = JNum (Finite (261 / 2))"
    "field untidyRaw (js ''stage'') = JStr (js '' Graduation '')"
    "field untidyRaw (js ''summary'') = JNum (Finite 7)"
    "field untidyRaw (js ''recommendedNextStep'') = JUndefined"
    "field untidyRaw (js ''nextStep'') = JUndefined"
    "field untidyRaw (js ''risks'') = JArr ?items"
    by (simp_all add: untidyRaw_def js_eq_iff)
  have g: "field untidyRawAnnotated (js ''structuralViabilityScore'') = JUndefined"
    "field untidyRawAnnotated (js ''viabilityScore'') = JNum (Finite (261 / 2))"
    "field untidyRawAnnotated (js ''stage'') = JStr (js '' Graduation '')"
    "field untidyRawAnnotated (js ''summary'') = JNum (Finite 7)"
    "field untidyRawAnnotated (js ''recommendedNextStep'') = JUndefined"
    "field untidyRawAnnotated (js ''nextStep'') = JUndefined"
    "field untidyRawAnnotated (js ''risks'') = JArr ?items"
    by (simp_all add: untidyRawAnnotated_def js_eq_iff)
  have t: "trim (js '' Graduation '') = js ''Graduation''" "trim (js '' b.ts '') = js ''b.ts''"
    "trim (js ''a.ts'') = js ''a.ts''"
    by (simp_all add: trim_def isWhiteSpace_def js_simps)
  have ne: "js ''Graduation'' \<noteq> []" "js ''a.ts'' \<noteq> []" "js ''b.ts'' \<noteq> []"
    by (simp_all add: js_Nil_iff)
  have v: "clampScore (JNum (Finite (261 / 2))) = 100"
    by (simp add: Math_round_def)
  have k: "asRiskArray (JArr ?items) = risks untidyReport"
    by (simp add: asRiskArray_JArr normalizedRisk_def t ne present_def js_eq_iff untidyReport_def)
  have n: "untidyRaw \<noteq> JNull" "untidyRaw \<noteq> JUndefined"
    "untidyRawAnnotated \<noteq> JNull" "untidyRawAnnotated \<noteq> JUndefined"
    by (simp_all add: untidyRaw_def untidyRawAnnotated_def)
  have m: "mapToReport untidyRaw = Inr untidyReport"
    unfolding mapToReport_eq [OF n(1,2)] f k
    by (simp add: t ne v present_def untidyReport_def del: clampScore.simps)
  have a: "list_all (\<lambda>k. field untidyRaw k = field untidyRawAnnotated k) namesRead"
    by (simp add: namesRead_def f g)
  have p: "map filePath (risks untidyReport) = [js ''b.ts'', js ''a.ts'']"
    by (simp add: untidyReport_def)
  note T = normalization_stable [of untidyRaw untidyRawAnnotated untidyReport ?items untidyReport]
  from T n a have 1: "mapToReport untidyRaw = mapToReport untidyRawAnnotated" by blast
  from T m f(7) have 2: "risks untidyReport = map normalizedRisk (filter isNonNullObject ?items)"
    by blast
  from T m have 3: "normalReport untidyReport" by blast
  from T m have 4: "mapToReport (reportAsJson untidyReport) = Inr untidyReport" by blast
  from 1 m have 5: "mapToReport untidyRawAnnotated = Inr untidyReport" by simp
  from m 2 p 3 4 a 5 show ?thesis by (intro conjI)
qed

section \<open>Properties of the upload handler\<close>

lemma upload_eq:
  "upload name outcome p =
     p\<lparr>ui := (case outcome of
                 ReadFailed \<Rightarrow> onerror ((ui p)\<lparr>error := None\<rparr>)
               | ReadLoaded res \<Rightarrow> onload name res ((ui p)\<lparr>error := None\<rparr>))\<rparr>"
  by (cases outcome) (simp_all add: upload_def handleFileChange_def readEnds_def)

lemma onload_failure:
  assumes "parseAndNormalize res = Inl e"
  shows "onload name res s
     = s\<lparr>error := Some parseMessage, report := placeholderReport, isPlaceholder := True,
         fileName := None\<rparr>"
  using assms by (simp add: onload_def parseMessage_def)

lemma onload_success:
  assumes "parseAndNormalize res = Inr r"
  shows "onload name res s = s\<lparr>report := r, isPlaceholder := False, fileName := Some name\<rparr>"
  using assms by (simp add: onload_def)

lemma gradedRaw_report: "mapToReport gradedRaw = Inr gradedReport"
proof -
  have f: "field gradedRaw (js ''structuralViabilityScore'') = JNum (Finite 50)"
    "field gradedRaw (js ''viabilityScore'') = JUndefined"
    "field gradedRaw (js ''stage'') = JStr (js ''Graduation'')"
    "field gradedRaw (js ''summary'') = JUndefined"
    "field gradedRaw (js ''recommendedNextStep'') = JUndefined"
    "field gradedRaw (js ''nextStep'') = JUndefined"
    "field gradedRaw (js ''risks'') = JUndefined"
    by (simp_all add: gradedRaw_def js_eq_iff)
  have t: "trim (js ''Graduation'') = js ''Graduation''"
    by (simp add: trim_def isWhiteSpace_def js_simps)
  have ne: "js ''Graduation'' \<noteq> []"
    by (simp add: js_Nil_iff)
  have v: "clampScore (JNum (Finite 50)) = 50"
    by (rule clampScore_fixed) simp_all
  have n: "gradedRaw \<noteq> JNull" "gradedRaw \<noteq> JUndefined"
    by (simp_all add: gradedRaw_def)
  show ?thesis
    unfolding mapToReport_eq [OF n] f
    by (simp add: t ne v present_def asRiskArray_def gradedReport_def del: clampScore.simps)
qed

lemma graded_load:
  "onload name (Text (Inr gradedRaw)) s
     = s\<lparr>report := gradedReport, isPlaceholder := False, fileName := Some name\<rparr>"
  by (rule onload_success) (simp add: parseAndNormalize_def gradedRaw_report)

lemma loadedPage_eq:
  "loadedPage
     = \<lparr>ui = \<lparr>report = gradedReport, isPlaceholder = False, error = None,
               fileName = Some (js ''report.json'')\<rparr>,
        pending = []\<rparr>"
  by (simp add: loadedPage_def upload_eq graded_load initialPage_def initialState_def)

lemma gradedReport_not_placeholder: "gradedReport \<noteq> placeholderReport"
  by (simp add: gradedReport_def placeholderReport_def)

text \<open>
  Claim C6 says that a failed read, like unparsable content, puts the placeholder Report
  back. The handler does not: after a first successful upload, a read that fails leaves
  the loaded Report displayed (its score of 50, its stage), with the placeholder flag off
  and the old file name, and only sets the message.
\<close>

theorem read_failure_keeps_report:
  "report (ui (upload (js ''broken.json'') ReadFailed loadedPage)) = gradedReport
   \<and> gradedReport \<noteq> placeholderReport
   \<and> structuralViabilityScore (report (ui (upload (js ''broken.json'') ReadFailed loadedPage))) = 50
   \<and> isPlaceholder (ui (upload (js ''broken.json'') ReadFailed loadedPage)) = False
   \<and> fileName (ui (upload (js ''broken.json'') ReadFailed loadedPage)) = Some (js ''report.json'')
   \<and> error (ui (upload (js ''broken.json'') ReadFailed loadedPage)) = Some readMessage"
  by (simp add: upload_eq onerror_def readMessage_def loadedPage_eq gradedReport_not_placeholder)
    (simp add: gradedReport_def)

text \<open>
  Claim C7, as stated, fails on content that is valid JSON but not an object: the text
  \<open>42\<close> is accepted, with no error message, and the Report of defaults is displayed as
  a loaded report, which is not the placeholder Report.
\<close>

theorem number_upload_accepted:
  "error (ui (upload (js ''n.json'') (ReadLoaded (Text (Inr (JNum (Finite 42))))) initialPage)) = None
   \<and> isPlaceholder (ui (upload (js ''n.json'') (ReadLoaded (Text (Inr (JNum (Finite 42))))) initialPage))
       = False
   \<and> report (ui (upload (js ''n.json'') (ReadLoaded (Text (Inr (JNum (Finite 42))))) initialPage))
       = defaultedReport
   \<and> defaultedReport \<noteq> placeholderReport"
proof -
  have "parseAndNormalize (Text (Inr (JNum (Finite 42)))) = Inr defaultedReport"
    by (simp add: parseAndNormalize_def mapToReport_non_record)
  moreover have "defaultedReport \<noteq> placeholderReport"
    by (simp add: defaultedReport_def placeholderReport_def js_eq_iff)
  ultimately show ?thesis
    by (simp add: upload_eq onload_success initialPage_def initialState_def)
qed

text \<open>
  Claim C7, amended. Content that is not valid JSON, and the JSON value \<open>null\<close>, give
  the "confirm it is valid JSON" message and put the placeholder Report back, with the
  placeholder flag on and no file name, in whatever state the read ends. Every other JSON
  value (an object whatever its fields hold, an array, a number, a string, a boolean) is
  never an error: the normalizer turns it into a well-formed Report, which is displayed,
  and the load leaves the message as it is. In an upload with no other read pending that
  is no message, the selection having cleared it; a message that the failure of another
  pending read has set in between stays.
\<close>

theorem upload_outcomes:
  "onload name (Text (Inl e)) s
     = s\<lparr>error := Some parseMessage, report := placeholderReport, isPlaceholder := True,
         fileName := None\<rparr>
   \<and> onload name (Text (Inr JNull)) s
     = s\<lparr>error := Some parseMessage, report := placeholderReport, isPlaceholder := True,
         fileName := None\<rparr>
   \<and> ui (upload name (ReadLoaded (Text (Inl e))) p)
     = (ui p)\<lparr>error := Some parseMessage, report := placeholderReport, isPlaceholder := True,
         fileName := None\<rparr>
   \<and> ui (upload name (ReadLoaded (Text (Inr JNull))) p)
     = (ui p)\<lparr>error := Some parseMessage, report := placeholderReport, isPlaceholder := True,
         fileName := None\<rparr>
   \<and> (v \<noteq> JNull \<and> v \<noteq> JUndefined \<longrightarrow>
        (\<exists>r. mapToReport v = Inr r \<and> wellFormedReport r
           \<and> onload name (Text (Inr v)) s
             = s\<lparr>report := r, isPlaceholder := False, fileName := Some name\<rparr>
           \<and> ui (upload name (ReadLoaded (Text (Inr v))) p)
             = (ui p)\<lparr>error := None, report := r, isPlaceholder := False,
                 fileName := Some name\<rparr>))
   \<and> parseMessage = js ''We could not parse that file. Please confirm it is valid JSON.''"
proof -
  have a: "onload name (Text (Inl e)) s
     = s\<lparr>error := Some parseMessage, report := placeholderReport, isPlaceholder := True,
         fileName := None\<rparr>" for s
    by (rule onload_failure [of _ e]) (simp add: parseAndNormalize_def)
  have b: "onload name (Text (Inr JNull)) s
     = s\<lparr>error := Some parseMessage, report := placeholderReport, isPlaceholder := True,
         fileName := None\<rparr>" for s
    by (rule onload_failure [of _ TypeError]) (simp add: parseAndNormalize_def mapToReport_null)
  have c: "\<exists>r. mapToReport v = Inr r \<and> wellFormedReport r
           \<and> onload name (Text (Inr v)) s
             = s\<lparr>report := r, isPlaceholder := False, fileName := Some name\<rparr>
           \<and> ui (upload name (ReadLoaded (Text (Inr v))) p)
             = (ui p)\<lparr>error := None, report := r, isPlaceholder := False,
                 fileName := Some name\<rparr>"
    if n: "v \<noteq> JNull" "v \<noteq> JUndefined"
  proof -
    from mapToReport_eq [OF n] obtain r where r: "mapToReport v = Inr r" by blast
    then have q: "parseAndNormalize (Text (Inr v)) = Inr r" by (simp add: parseAndNormalize_def)
    have "ui (upload name (ReadLoaded (Text (Inr v))) p)
             = (ui p)\<lparr>error := None, report := r, isPlaceholder := False,
                 fileName := Some name\<rparr>"
      by (simp add: upload_eq onload_success [OF q])
    with onload_success [OF q] r mapToReport_wellFormed [OF r] show ?thesis by blast
  qed
  show ?thesis using a b c by (simp add: upload_eq) (simp add: parseMessage_def)
qed

theorem upload_outcomes_witness:
  "JArr [] \<noteq> JNull \<and> JArr [] \<noteq> JUndefined
   \<and> ui (upload (js ''a.json'') (ReadLoaded (Text (Inr (JArr [])))) loadedPage)
       = \<lparr>report = defaultedReport, isPlaceholder = False, error = None,
          fileName = Some (js ''a.json'')\<rparr>
   \<and> ui (upload (js ''b.json'') (ReadLoaded (Text (Inl SyntaxError))) loadedPage)
       = \<lparr>report = placeholderReport, isPlaceholder = True, error = Some parseMessage,
          fileName = None\<rparr>
   \<and> ui (run [FileChange (Some (js ''b.json'', ReadLoaded (Text (Inl SyntaxError)))),
               FileChange (Some (js ''a.json'', ReadLoaded (Text (Inr (JArr []))))),
               ReadEnds 0, ReadEnds 0] initialPage)
       = \<lparr>report = defaultedReport, isPlaceholder = False, error = Some parseMessage,
          fileName = Some (js ''a.json'')\<rparr>"
proof -
  let ?failed = "\<lparr>report = placeholderReport, isPlaceholder = True, error = Some parseMessage,
          fileName = None\<rparr>"
  have m: "mapToReport (JArr []) = Inr defaultedReport"
    by (simp add: mapToReport_non_record)
  note A = upload_outcomes [where name = "js ''a.json''" and e = SyntaxError and s = ?failed
      and p = loadedPage and v = "JArr []"]
  note B = upload_outcomes [where name = "js ''b.json''" and e = SyntaxError and s = initialState
      and p = loadedPage and v = "JArr []"]
  from A obtain r where "mapToReport (JArr []) = Inr r"
    and l: "onload (js ''a.json'') (Text (Inr (JArr []))) ?failed
      = ?failed\<lparr>report := r, isPlaceholder := False, fileName := Some (js ''a.json'')\<rparr>"
    and u: "ui (upload (js ''a.json'') (ReadLoaded (Text (Inr (JArr [])))) loadedPage)
      = (ui loadedPage)\<lparr>error := None, report := r, isPlaceholder := False,
          fileName := Some (js ''a.json'')\<rparr>"
    by blast
  with m have r: "r = defaultedReport" by simp
  from B have f: "ui (upload (js ''b.json'') (ReadLoaded (Text (Inl SyntaxError))) loadedPage)
     = (ui loadedPage)\<lparr>error := Some parseMessage, report := placeholderReport,
         isPlaceholder := True, fileName := None\<rparr>"
    by blast
  from B have g: "onload (js ''b.json'') (Text (Inl SyntaxError)) initialState
     = initialState\<lparr>error := Some parseMessage, report := placeholderReport,
         isPlaceholder := True, fileName := None\<rparr>"
    by blast
  have i: "initialState\<lparr>error := None\<rparr> = initialState"
    "initialState\<lparr>error := Some parseMessage, report := placeholderReport,
         isPlaceholder := True, fileName := None\<rparr> = ?failed"
    by (simp_all add: initialState_def)
  have o: "ui (run [FileChange (Some (js ''b.json'', ReadLoaded (Text (Inl SyntaxError)))),
               FileChange (Some (js ''a.json'', ReadLoaded (Text (Inr (JArr []))))),
               ReadEnds 0, ReadEnds 0] initialPage)
       = onload (js ''a.json'') (Text (Inr (JArr [])))
           (onload (js ''b.json'') (Text (Inl SyntaxError)) initialState)"
    by (simp add: handleFileChange_def readEnds_def initialPage_def i)
  show ?thesis
    unfolding u f o g i l r by (simp add: loadedPage_eq)
qed

section \<open>Properties of the insight aggregator\<close>

lemma classifyBy_signalKeywords:
  "classifyBy lc signalKeywords (title i) =
     (if titleHas lc i ''database'' \<or> titleHas lc i ''shared'' then js ''Shared Database Risk''
      else if titleHas lc i ''auth'' \<or> titleHas lc i ''bottleneck''
        then js ''Structural Bottleneck''
      else if titleHas lc i ''stripe'' \<or> titleHas lc i ''integration''
        then js ''External API Blast Radius''
      else if titleHas lc i ''cross-domain'' \<or> titleHas lc i ''coupling''
        then js ''Cross-Domain Coupling''
      else title i)"
  by (simp add: signalKeywords_def)

lemma topFragilities_table:
  "topFragilities lc insights =
     map (\<lambda>i. \<lparr>signal = classifyBy lc signalKeywords (title i), summary = Insight.summary i\<rparr>)
       (take 3 (filter (\<lambda>i. severity i = High \<or> severity i = Medium) insights))"
  unfolding topFragilities_def classifyBy_signalKeywords ..

lemma flags_table:
  "hasDatabaseRisk lc insights
     = list_ex (\<lambda>i. list_ex (\<lambda>k. titleHas lc i k) (snd (flagKeywords ! 0))) insights"
  "hasBottleneck lc insights
     = list_ex (\<lambda>i. list_ex (\<lambda>k. titleHas lc i k) (snd (flagKeywords ! 1))) insights"
  "hasExternalDependency lc insights
     = list_ex (\<lambda>i. list_ex (\<lambda>k. titleHas lc i k) (snd (flagKeywords ! 2))) insights"
  "hasCrossDomain lc insights
     = list_ex (\<lambda>i. list_ex (\<lambda>k. titleHas lc i k) (snd (flagKeywords ! 3))) insights"
  by (simp_all add: hasDatabaseRisk_def hasBottleneck_def hasExternalDependency_def
      hasCrossDomain_def flagKeywords_def disj_ac)

lemma schema_lower: "lowerBasicLatin (js ''Schema Drift'') = js ''schema drift''"
  by (simp add: lowerBasicLatin_def js_simps)

lemma schema_has:
  "str_includes (js ''schema drift'') (js ''schema'')"
  "\<not> str_includes (js ''schema drift'') (js ''database'')"
  "\<not> str_includes (js ''schema drift'') (js ''shared'')"
  "\<not> str_includes (js ''schema drift'') (js ''auth'')"
  "\<not> str_includes (js ''schema drift'') (js ''bottleneck'')"
  "\<not> str_includes (js ''schema drift'') (js ''stripe'')"
  "\<not> str_includes (js ''schema drift'') (js ''integration'')"
  "\<not> str_includes (js ''schema drift'') (js ''cross-domain'')"
  "\<not> str_includes (js ''schema drift'') (js ''coupling'')"
  by (simp_all add: js_simps)

text \<open>
  Claim C9, as stated, fails on a title that contains "schema": it sets the database
  flag, and the flags' keywords put it into the database category, but the selection
  keeps the raw title as its signal. The title "Schema Drift" is made of Basic Latin code
  units, on which \<open>toLowerCase\<close> is \<open>lowerBasicLatin\<close>.
\<close>

theorem schema_title_keeps_raw_signal:
  "hasDatabaseRisk lowerBasicLatin [schemaInsight]
   \<and> classifyBy lowerBasicLatin flagKeywords (title schemaInsight) = js ''Shared Database Risk''
   \<and> topFragilities lowerBasicLatin [schemaInsight]
       = [\<lparr>signal = js ''Schema Drift'', summary = js ''s''\<rparr>]
   \<and> js ''Schema Drift'' \<noteq> js ''Shared Database Risk''"
  by (simp add: hasDatabaseRisk_def topFragilities_def schemaInsight_def flagKeywords_def
      schema_lower schema_has js_eq_iff)

text \<open>
  Claim C9, amended. Whatever the host's \<open>toLowerCase\<close> is, the selection keeps the
  insights of severity high or medium in their order, takes the first three, and gives
  each the signal of the first category, in the order database, bottleneck, external
  integration, cross-domain, one of whose keywords its lower-cased title contains, and its
  raw title when there is none. The keywords are fewer than those of the four boolean
  flags: "database", "shared"; "auth", "bottleneck"; "stripe", "integration";
  "cross-domain", "coupling". The flags also look for "schema"; "identity", "god";
  "3rd party", "external"; "domain".
\<close>

theorem topFragilities_selection:
  "topFragilities toLowerCase insights =
     map (\<lambda>i. \<lparr>signal = classifyBy toLowerCase signalKeywords (title i),
               summary = Insight.summary i\<rparr>)
       (take 3 (filter (\<lambda>i. severity i = High \<or> severity i = Medium) insights))
   \<and> length (topFragilities toLowerCase insights) \<le> 3
   \<and> signalKeywords =
       [(js ''Shared Database Risk'', [''database'', ''shared'']),
        (js ''Structural Bottleneck'', [''auth'', ''bottleneck'']),
        (js ''External API Blast Radius'', [''stripe'', ''integration'']),
        (js ''Cross-Domain Coupling'', [''cross-domain'', ''coupling''])]
   \<and> hasDatabaseRisk toLowerCase insights
       = list_ex (\<lambda>i. list_ex (\<lambda>k. titleHas toLowerCase i k) [''database'', ''shared'', ''schema''])
           insights
   \<and> hasBottleneck toLowerCase insights
       = list_ex (\<lambda>i. list_ex (\<lambda>k. titleHas toLowerCase i k)
                        [''auth'', ''identity'', ''bottleneck'', ''god''])
           insights
   \<and> hasExternalDependency toLowerCase insights
       = list_ex (\<lambda>i. list_ex (\<lambda>k. titleHas toLowerCase i k)
                        [''stripe'', ''3rd party'', ''external'', ''integration''])
           insights
   \<and> hasCrossDomain toLowerCase insights
       = list_ex (\<lambda>i. list_ex (\<lambda>k. titleHas toLowerCase i k)
                        [''cross-domain'', ''coupling'', ''domain''])
           insights"
proof -
  have "length (topFragilities toLowerCase insights) \<le> 3"
    by (simp add: topFragilities_table)
  then show ?thesis
    using topFragilities_table [of toLowerCase insights] flags_table [of toLowerCase insights]
    by (simp add: signalKeywords_def flagKeywords_def)
qed

lemma sample_signals:
  "classifyBy lowerBasicLatin signalKeywords (js ''Shared Database Fragility'')
     = js ''Shared Database Risk''"
  "classifyBy lowerBasicLatin signalKeywords (js ''Auth Service as Structural Bottleneck'')
     = js ''Structural Bottleneck''"
  "classifyBy lowerBasicLatin signalKeywords (js ''Stripe Integration Blast Radius'')
     = js ''External API Blast Radius''"
  by (simp_all add: signalKeywords_def lowerBasicLatin_def js_simps)

lemma sample_domain:
  "str_includes (lowerBasicLatin (js ''Legacy Domain Helpers'')) (js ''domain'')"
  by (simp add: lowerBasicLatin_def js_simps)

theorem topFragilities_selection_witness:
  "topFragilities lowerBasicLatin sampleInsights
     = [\<lparr>signal = js ''Shared Database Risk'', summary = js ''s1''\<rparr>,
        \<lparr>signal = js ''Structural Bottleneck'', summary = js ''s2''\<rparr>,
        \<lparr>signal = js ''External API Blast Radius'', summary = js ''s3''\<rparr>]
   \<and> hasCrossDomain lowerBasicLatin sampleInsights"
proof -
  note T = topFragilities_selection [of lowerBasicLatin sampleInsights]
  from T have 1: "topFragilities lowerBasicLatin sampleInsights =
     map (\<lambda>i. \<lparr>signal = classifyBy lowerBasicLatin signalKeywords (title i),
               summary = Insight.summary i\<rparr>)
       (take 3 (filter (\<lambda>i. severity i = High \<or> severity i = Medium) sampleInsights))"
    by blast
  from T have 2: "hasCrossDomain lowerBasicLatin sampleInsights
       = list_ex (\<lambda>i. list_ex (\<lambda>k. titleHas lowerBasicLatin i k)
                        [''cross-domain'', ''coupling'', ''domain''])
           sampleInsights"
    by blast
  have 3: "map (\<lambda>i. \<lparr>signal = classifyBy lowerBasicLatin signalKeywords (title i),
               summary = Insight.summary i\<rparr>)
       (take 3 (filter (\<lambda>i. severity i = High \<or> severity i = Medium) sampleInsights))
     = [\<lparr>signal = classifyBy lowerBasicLatin signalKeywords (js ''Shared Database Fragility''),
         summary = js ''s1''\<rparr>,
        \<lparr>signal = classifyBy lowerBasicLatin signalKeywords
                   (js ''Auth Service as Structural Bottleneck''),
         summary = js ''s2''\<rparr>,
        \<lparr>signal = classifyBy lowerBasicLatin signalKeywords (js ''Stripe Integration Blast Radius''),
         summary = js ''s3''\<rparr>]"
    by (simp add: sampleInsights_def del: classifyBy.simps)
  have 4: "list_ex (\<lambda>i. list_ex (\<lambda>k. titleHas lowerBasicLatin i k)
                        [''cross-domain'', ''coupling'', ''domain''])
           sampleInsights"
    by (simp add: sampleInsights_def sample_domain)
  show ?thesis
    unfolding 1 2 3 sample_signals using 4 by simp
qed

end
